theory Spec2Isabelle
  imports Complex_Main "HOL-Library.Char_ord" "HOL-Library.List_Lexorder"
begin

section \<open>ncompare: comparing the structure of two NetCDF files\<close>

text \<open>
  A shallow embedding of \<^verbatim>\<open>src/ncompare/core.py\<close>. Every function of the module is
  a function of the same name here. What Python does besides returning a value is explicit:
  a computation takes a \<open>world\<close> (the random source, the text printed so far, and a log of
  the calls into the array and alignment collaborators) and returns the new world with
  either the exception raised or the value returned.
\<close>

subsection \<open>Scalars\<close>

text \<open>
  The value of one array element. The variables are taken to be of dtype \<^verbatim>\<open>float64\<close>:
  a value is \<open>NaN\<close>, one of the two infinities, or a finite number, given by the real
  number it stands for.
\<close>

datatype scalar = NaN | NInf | Fin real | PInf

text \<open>
  The nearest integer, the even one of the two when \<open>m\<close> lies half way.
\<close>

definition round_half_even :: "real \<Rightarrow> int" where
  "round_half_even m =
     (if m - of_int \<lfloor>m\<rfloor> < 1 / 2 then \<lfloor>m\<rfloor>
      else if 1 / 2 < m - of_int \<lfloor>m\<rfloor> then \<lfloor>m\<rfloor> + 1
      else if even \<lfloor>m\<rfloor> then \<lfloor>m\<rfloor>
      else \<lfloor>m\<rfloor> + 1)"

text \<open>
  The distance between neighbouring \<^verbatim>\<open>float64\<close> numbers at the magnitude of \<open>x\<close>: 52 binary
  places below the leading one, and \<^verbatim>\<open>2 ** -1074\<close> for the numbers below \<^verbatim>\<open>2 ** -1022\<close>.
\<close>

definition float64_ulp :: "real \<Rightarrow> real" where
  "float64_ulp x = 2 powi (max \<lfloor>log 2 \<bar>x\<bar>\<rfloor> (- 1022) - 52)"

text \<open>
  The \<^verbatim>\<open>float64\<close> result of an operation whose exact result is \<open>x\<close>: \<open>x\<close> rounded to the
  nearest \<^verbatim>\<open>float64\<close> number, ties to the even one, and an infinity when that is
  \<^verbatim>\<open>2 ** 1024\<close> or more in magnitude.
\<close>

definition round64 :: "real \<Rightarrow> scalar" where
  "round64 x =
     (if x = 0 then Fin 0
      else if 2 ^ 1024 \<le> \<bar>of_int (round_half_even (x / float64_ulp x)) * float64_ulp x\<bar>
      then (if 0 < x then PInf else NInf)
      else Fin (of_int (round_half_even (x / float64_ulp x)) * float64_ulp x))"

text \<open>\<^verbatim>\<open>np.isnan(v)\<close>\<close>

fun isnan :: "scalar \<Rightarrow> bool" where
  "isnan NaN = True"
| "isnan _ = False"

text \<open>
  \<^verbatim>\<open>a - b\<close>: the exact difference of two finite values, rounded; an infinity minus itself
  is not a number.
\<close>

fun fsub :: "scalar \<Rightarrow> scalar \<Rightarrow> scalar" where
  "fsub NaN _ = NaN"
| "fsub _ NaN = NaN"
| "fsub (Fin x) (Fin y) = round64 (x - y)"
| "fsub (Fin x) PInf = NInf"
| "fsub (Fin x) NInf = PInf"
| "fsub PInf PInf = NaN"
| "fsub PInf _ = PInf"
| "fsub NInf NInf = NaN"
| "fsub NInf _ = NInf"

text \<open>\<^verbatim>\<open>abs(a)\<close>\<close>

fun fabs :: "scalar \<Rightarrow> scalar" where
  "fabs NaN = NaN"
| "fabs NInf = PInf"
| "fabs PInf = PInf"
| "fabs (Fin x) = Fin \<bar>x\<bar>"

text \<open>\<^verbatim>\<open>a > b\<close>: every comparison with \<open>NaN\<close> is false.\<close>

fun fgt :: "scalar \<Rightarrow> scalar \<Rightarrow> bool" where
  "fgt NaN _ = False"
| "fgt _ NaN = False"
| "fgt (Fin x) (Fin y) = (x > y)"
| "fgt PInf PInf = False"
| "fgt PInf _ = True"
| "fgt NInf _ = False"
| "fgt (Fin x) NInf = True"
| "fgt (Fin x) PInf = False"

text \<open>
  The default of the parameter \<^verbatim>\<open>thresh: float = 1e-6\<close>: the \<^verbatim>\<open>float64\<close> number that the
  literal \<^verbatim>\<open>1e-6\<close> is, \<^verbatim>\<open>4722366482869645 / 2 ** 72\<close>.
\<close>

definition default_thresh :: scalar where
  "default_thresh = Fin (4722366482869645 / 2 ^ 72)"

subsection \<open>Exceptions, printed text, and the world\<close>

text \<open>
  The exceptions of a run. \<open>OSError\<close> is a file or a group that does not open,
  \<open>KeyError\<close> a name that a group or a file does not have, \<open>PathError\<close> whatever
  \<^verbatim>\<open>make_valid_path\<close> raises.
\<close>

datatype error =
    OSError
  | KeyError string
  | IndexError
  | ValueError
  | PathError

text \<open>
  What indexing an array gives: one element when the index has a component for every
  axis, the sub-array of the remaining axes (its elements in row-major order) when it has
  fewer.
\<close>

datatype 'a item = Scalar 'a | SubArray "'a list"

text \<open>
  The value of a variable's optional \<^verbatim>\<open>scale_factor\<close> as the reporter shows it:
  \<^verbatim>\<open>str(sf)\<close>, or the one blank \<^verbatim>\<open>' '\<close>.
\<close>

datatype sf_text = SfBlank | SfStr scalar

text \<open>
  One constructor for each \<^verbatim>\<open>print\<close>, \<^verbatim>\<open>print_normal\<close>, \<^verbatim>\<open>lists_diff\<close> and
  \<^verbatim>\<open>side_by_side\<close> call of the module, carrying the values formatted into the text.
  The functions of \<^verbatim>\<open>ncompare.printing\<close> are not part of the module: a call of one
  of them is recorded with its arguments.
\<close>

datatype message =
    FileA string                      \<comment> \<open>\<^verbatim>\<open>File A: {nc_a}\<close>\<close>
  | FileB string                      \<comment> \<open>\<^verbatim>\<open>File B: {nc_b}\<close>\<close>
  | FinalDone                         \<comment> \<open>\<^verbatim>\<open>print_normal("\nDone.")\<close> of \<^verbatim>\<open>compare\<close>\<close>
  | RootDimsHeader                    \<comment> \<open>\<^verbatim>\<open>Root-level Dimensions:\<close>\<close>
  | GroupsHeader                      \<comment> \<open>\<^verbatim>\<open>Groups:\<close>\<close>
  | ListsDiffDims "(string \<times> nat) list" "(string \<times> nat) list"
  | ListsDiff "string list" "string list"
  | GroupVarsHeader string            \<comment> \<open>\<^verbatim>\<open>Variables within specified group <%s>:\<close>\<close>
  | SampleHeader string               \<comment> \<open>\<^verbatim>\<open>Sample values within specified variable <%s>:\<close>\<close>
  | CheckingHeader string             \<comment> \<open>\<^verbatim>\<open>Checking multiple random values within specified variable <%s>:\<close>\<close>
  | LookupErrorReport string string   \<comment> \<open>\<^verbatim>\<open>Error when comparing values for variable <%s> in group <%s>.\<close>\<close>
  | Traceback error                   \<comment> \<open>\<^verbatim>\<open>print(traceback.format_exc())\<close>\<close>
  | Newline                           \<comment> \<open>\<^verbatim>\<open>print("\n")\<close> and \<^verbatim>\<open>print()\<close>\<close>
  | NoVariableSelected                \<comment> \<open>\<^verbatim>\<open>No variable selected for comparison. Skipping..\<close>\<close>
  | NoGroupSelected                   \<comment> \<open>\<^verbatim>\<open>No variable group selected for comparison. Skipping..\<close>\<close>
  | AllVariablesHeader                \<comment> \<open>\<^verbatim>\<open>All variables:\<close>\<close>
  | Marker string                     \<comment> \<open>\<^verbatim>\<open>print_normal(".", end="")\<close>, and \<^verbatim>\<open>"n"\<close>, \<^verbatim>\<open>"x"\<close>\<close>
  | MismatchSummary nat int           \<comment> \<open>\<^verbatim>\<open>{num_mismatches} mismatches, out of {num_comparisons} samples.\<close>\<close>
  | NoMismatches                      \<comment> \<open>\<^verbatim>\<open>No mismatches.\<close>\<close>
  | SamplerDone                       \<comment> \<open>\<^verbatim>\<open>print_normal("Done.")\<close> of the sampler\<close>
  | DiffExceeded "scalar item"             \<comment> \<open>\<^verbatim>\<open>Difference exceeded threshold (diff == {diff}\<close>\<close>
  | VarShape "nat list"               \<comment> \<open>\<^verbatim>\<open>var shape: {nc_var_a.shape}\<close>\<close>
  | Indices "int list"                \<comment> \<open>\<^verbatim>\<open>indices:   {rand_index}\<close>\<close>
  | ValueA "scalar item"           \<comment> \<open>\<^verbatim>\<open>value a: {v1}\<close>\<close>
  | ValueB "scalar item"           \<comment> \<open>\<^verbatim>\<open>value b: {v2}\<close>\<close>
  | SampleValues "scalar list"        \<comment> \<open>\<^verbatim>\<open>print_normal(comparison_variable.values[0, :])\<close>\<close>
  | OpenGroupError string             \<comment> \<open>\<^verbatim>\<open>Error occurred when attempting to open group within <%s>.\<close>\<close>
  | PrintedNames "string list"        \<comment> \<open>\<^verbatim>\<open>print_normal(grp_varlist)\<close>, \<^verbatim>\<open>print_normal(sorted(groups_list))\<close>\<close>
  | PrintedDims "(string \<times> nat) list" \<comment> \<open>\<^verbatim>\<open>print_normal(str(sorted(dims_list, ...)))\<close>\<close>
  | TableHeader                       \<comment> \<open>\<^verbatim>\<open>side_by_side(' ', 'File A', 'File B')\<close>\<close>
  | DashLine                          \<comment> \<open>\<^verbatim>\<open>side_by_side('-', '-', '-', dash_line=True)\<close>\<close>
  | NumVarsRoot nat nat               \<comment> \<open>\<^verbatim>\<open>num variables in root group:\<close>\<close>
  | GroupRow nat string string        \<comment> \<open>\<^verbatim>\<open>group #{g_idx:02}\<close>\<close>
  | NumVarsGroup nat nat              \<comment> \<open>\<^verbatim>\<open>num variables in groups:\<close>\<close>
  | VarRow string string              \<comment> \<open>\<^verbatim>\<open>var:\<close>\<close>
  | DtypeRow string string            \<comment> \<open>\<^verbatim>\<open>dtype:\<close>\<close>
  | ShapeRow "nat list option" "nat list option" \<comment> \<open>\<^verbatim>\<open>shape:\<close>\<close>
  | ChunkRow string string            \<comment> \<open>\<^verbatim>\<open>chunksize:\<close>\<close>
  | SfRow sf_text sf_text             \<comment> \<open>\<^verbatim>\<open>sf:\<close>\<close>

text \<open>
  Two kinds of calls leave an entry in the log:
  \<open>Materialise s k\<close> when \<^verbatim>\<open>.values\<close> of the variable opened from file \<open>s\<close> reads its
  array of \<open>k\<close> elements into memory, and \<open>Align p xs ys\<close> when
  \<^verbatim>\<open>common_elements(xs, ys)\<close> is called on the listing path \<open>p\<close>.

  An opened variable keeps its array once \<^verbatim>\<open>.values\<close> has read it: \<open>cache\<close> holds the
  sides whose currently opened variable has its array in memory.
\<close>

datatype side = SideA | SideB

datatype listing = RootVariables | RootGroups | GroupVariables string string

datatype event =
    Materialise side nat
  | Align listing "string list" "string list"

record world =
  rng :: "nat \<Rightarrow> nat"
  out :: "message list"
  calls :: "event list"
  cache :: "side set"

type_synonym 'a comp = "world \<Rightarrow> (error + 'a) \<times> world"

definition ret :: "'a \<Rightarrow> 'a comp" where
  "ret x = (\<lambda>w. (Inr x, w))"

definition throw :: "error \<Rightarrow> 'a comp" where
  "throw e = (\<lambda>w. (Inl e, w))"

definition and_then :: "'a comp \<Rightarrow> ('a \<Rightarrow> 'b comp) \<Rightarrow> 'b comp" where
  "and_then m f = (\<lambda>w. case m w of (Inl e, w') \<Rightarrow> (Inl e, w') | (Inr x, w') \<Rightarrow> f x w')"

definition lift :: "error + 'a \<Rightarrow> 'a comp" where
  "lift r = (\<lambda>w. (r, w))"

definition emit :: "message \<Rightarrow> unit comp" where
  "emit m = (\<lambda>w. (Inr (), w\<lparr>out := out w @ [m]\<rparr>))"

definition record_call :: "event \<Rightarrow> unit comp" where
  "record_call ev = (\<lambda>w. (Inr (), w\<lparr>calls := calls w @ [ev]\<rparr>))"

subsection \<open>The random source\<close>

text \<open>
  \<^verbatim>\<open>random.randint(a, b)\<close>: a value of \<open>[a, b]\<close> taken from the next raw number of the
  source, and \<^verbatim>\<open>ValueError\<close> (empty range) when \<open>b < a\<close>.
\<close>

definition randint :: "int \<Rightarrow> int \<Rightarrow> int comp" where
  "randint a b = (\<lambda>w.
     if b < a then (Inl ValueError, w)
     else (Inr (a + int (rng w 0 mod nat (b - a + 1))), w\<lparr>rng := (\<lambda>i. rng w (Suc i))\<rparr>))"

subsection \<open>Variables and their arrays\<close>

text \<open>
  A variable of a file. \<open>dtype\<close>, \<open>shape\<close>, \<open>chunking\<close> and \<open>scale_factor\<close> are what the table
  of all variables shows of it; \<open>element\<close> gives the value at each index of its array, as
  \<^verbatim>\<open>.values\<close> holds it.
\<close>

record variable =
  dtype :: string
  shape :: "nat list"
  chunking :: string
  scale_factor :: "scalar option"
  element :: "nat list \<Rightarrow> scalar"

text \<open>The in-memory array that \<^verbatim>\<open>.values\<close> gives.\<close>

record ndarray =
  nshape :: "nat list"
  nelement :: "nat list \<Rightarrow> scalar"

text \<open>All index tuples of a shape, in row-major order.\<close>

fun all_indices :: "nat list \<Rightarrow> nat list list" where
  "all_indices [] = [[]]"
| "all_indices (d # ds) = concat (map (\<lambda>i. map ((#) i) (all_indices ds)) [0..<d])"

text \<open>
  \<^verbatim>\<open>var.values\<close>, for a variable as \<^verbatim>\<open>xr.open_dataset(...)[varname]\<close> gives it: the
  whole data of the variable as one in-memory array, of as many elements as the product
  of the extents. The first \<^verbatim>\<open>.values\<close> of an opened variable reads the whole array from
  the file and the variable keeps it; a later \<^verbatim>\<open>.values\<close> of the same variable reads
  nothing. In \<^verbatim>\<open>nc_var.values[rand_index]\<close> the subscript selects from that array.
\<close>

definition after_values :: "side \<Rightarrow> variable \<Rightarrow> world \<Rightarrow> world" where
  "after_values s v w =
     (if s \<in> cache w then w
      else w\<lparr>calls := calls w @ [Materialise s (prod_list (shape v))],
             cache := insert s (cache w)\<rparr>)"

definition values_of :: "side \<Rightarrow> variable \<Rightarrow> ndarray comp" where
  "values_of s v = (\<lambda>w. (Inr \<lparr>nshape = shape v, nelement = element v\<rparr>, after_values s v w))"

text \<open>
  One component of an index on an axis of extent \<open>d\<close>: a negative index counts from the
  end, anything outside \<open>[-d, d)\<close> is out of bounds.
\<close>

definition norm_index :: "nat \<Rightarrow> int \<Rightarrow> nat option" where
  "norm_index d i =
     (if 0 \<le> i \<and> i < int d then Some (nat i)
      else if - int d \<le> i \<and> i < 0 then Some (nat (i + int d))
      else None)"

fun norm_indices :: "nat list \<Rightarrow> int list \<Rightarrow> nat list option" where
  "norm_indices _ [] = Some []"
| "norm_indices [] (i # is) = None"
| "norm_indices (d # ds) (i # is) =
     (case norm_index d i of
        None \<Rightarrow> None
      | Some j \<Rightarrow> (case norm_indices ds is of None \<Rightarrow> None | Some js \<Rightarrow> Some (j # js)))"

text \<open>\<^verbatim>\<open>arr[idx]\<close> for a tuple of integers; \<^verbatim>\<open>IndexError\<close> for too many or out-of-bounds indices.\<close>

definition getitem :: "ndarray \<Rightarrow> int list \<Rightarrow> error + scalar item" where
  "getitem arr idx =
     (case norm_indices (nshape arr) idx of
        None \<Rightarrow> Inl IndexError
      | Some js \<Rightarrow>
          if length idx = length (nshape arr) then Inr (Scalar (nelement arr js))
          else Inr (SubArray (map (\<lambda>rest. nelement arr (js @ rest))
                                  (all_indices (drop (length idx) (nshape arr))))))"

fun map_item :: "('a \<Rightarrow> 'b) \<Rightarrow> 'a item \<Rightarrow> 'b item" where
  "map_item f (Scalar x) = Scalar (f x)"
| "map_item f (SubArray xs) = SubArray (map f xs)"

fun item_list :: "'a item \<Rightarrow> 'a list" where
  "item_list (Scalar x) = [x]"
| "item_list (SubArray xs) = xs"

text \<open>
  \<^verbatim>\<open>v2 - v1\<close>, element by element, a scalar operand used for every element of the other.
\<close>

fun item_sub :: "scalar item \<Rightarrow> scalar item \<Rightarrow> scalar item" where
  "item_sub (Scalar x) (Scalar y) = Scalar (fsub x y)"
| "item_sub (SubArray xs) (Scalar y) = SubArray (map (\<lambda>x. fsub x y) xs)"
| "item_sub (Scalar x) (SubArray ys) = SubArray (map (\<lambda>y. fsub x y) ys)"
| "item_sub (SubArray xs) (SubArray ys) = SubArray (map (\<lambda>(x, y). fsub x y) (zip xs ys))"

text \<open>
  The truth value that \<^verbatim>\<open>if\<close> and \<^verbatim>\<open>or\<close> take of a result: of an array with more than one
  element it is a \<^verbatim>\<open>ValueError\<close>; of an empty array it is false, as in numpy before 2.2
  (later versions raise \<^verbatim>\<open>ValueError\<close> there too). An index drawn from the shape of
  \<open>var_a\<close> gives an array instead of a scalar only on a \<open>var_b\<close> of more axes.
\<close>

fun truth :: "bool item \<Rightarrow> error + bool" where
  "truth (Scalar b) = Inr b"
| "truth (SubArray []) = Inr False"
| "truth (SubArray [b]) = Inr b"
| "truth (SubArray (b # c # bs)) = Inl ValueError"

subsection \<open>The random value sampler\<close>

text \<open>The loop \<^verbatim>\<open>for d in nc_var_a.shape: rand_index.append(random.randint(0, d - 1))\<close>.\<close>

fun draw_index :: "nat list \<Rightarrow> int list comp" where
  "draw_index [] = ret []"
| "draw_index (d # ds) =
     and_then (randint 0 (int d - 1)) (\<lambda>i.
     and_then (draw_index ds) (\<lambda>rest. ret (i # rest)))"

text \<open>
  \<^verbatim>\<open>_match_random_value\<close>. The result is \<^verbatim>\<open>None\<close>, \<^verbatim>\<open>True\<close> or \<^verbatim>\<open>False\<close>.
\<close>

definition match_random_value :: "variable \<Rightarrow> variable \<Rightarrow> scalar \<Rightarrow> bool option comp" where
  "match_random_value nc_var_a nc_var_b thresh =
     and_then (draw_index (shape nc_var_a)) (\<lambda>rand_index.
     and_then (values_of SideA nc_var_a) (\<lambda>values_a.
     and_then (lift (getitem values_a rand_index)) (\<lambda>v1.
     and_then (values_of SideB nc_var_b) (\<lambda>values_b.
     and_then (lift (getitem values_b rand_index)) (\<lambda>v2.
     and_then (lift (truth (map_item isnan v1))) (\<lambda>nan1.
     and_then (if nan1 then ret True else lift (truth (map_item isnan v2))) (\<lambda>missing.
     if missing then ret None
     else
       and_then (lift (truth (map_item (\<lambda>d. fgt (fabs d) thresh) (item_sub v2 v1)))) (\<lambda>exceeded.
       if exceeded then
         and_then (emit Newline) (\<lambda>_.
         and_then (emit (DiffExceeded (item_sub v2 v1))) (\<lambda>_.
         and_then (emit (VarShape (shape nc_var_a))) (\<lambda>_.
         and_then (emit (Indices rand_index)) (\<lambda>_.
         and_then (emit (ValueA v1)) (\<lambda>_.
         and_then (emit (ValueB v2)) (\<lambda>_.
         ret (Some False)))))))
       else ret (Some True)))))))))"

text \<open>
  The body of the loop of \<^verbatim>\<open>compare_multiple_random_values\<close>, run \<open>k\<close> more times with
  \<open>num_mismatches\<close> as it stands; the result is the final \<open>num_mismatches\<close>.
\<close>

fun sample_loop :: "nat \<Rightarrow> variable \<Rightarrow> variable \<Rightarrow> nat \<Rightarrow> nat comp" where
  "sample_loop 0 nc_var_a nc_var_b num_mismatches = ret num_mismatches"
| "sample_loop (Suc k) nc_var_a nc_var_b num_mismatches =
     and_then (match_random_value nc_var_a nc_var_b default_thresh) (\<lambda>match_result.
       case match_result of
         Some True \<Rightarrow>
           and_then (emit (Marker ''.'')) (\<lambda>_. sample_loop k nc_var_a nc_var_b num_mismatches)
       | None \<Rightarrow>
           and_then (emit (Marker ''n'')) (\<lambda>_. sample_loop k nc_var_a nc_var_b num_mismatches)
       | Some False \<Rightarrow>
           and_then (emit (Marker ''x'')) (\<lambda>_. sample_loop k nc_var_a nc_var_b (num_mismatches + 1)))"

subsection \<open>Files\<close>

text \<open>
  A NetCDF file as the module reads it. A group has its variables, in the order of the
  file, and its groups. \<open>gvirtual\<close> is what xarray's \<^verbatim>\<open>Dataset[name]\<close> gives for a name
  that is not one of the variables: the index of a dimension that has no coordinate
  variable, a component of another variable for a dotted name, and \<^verbatim>\<open>KeyError\<close>
  otherwise.
\<close>

datatype group =
  Group (gvariables: "(string \<times> variable) list")
        (gvirtual: "string \<Rightarrow> error + variable")
        (subgroups: "(string \<times> group) list")

text \<open>
  The root of a file: \<open>dims\<close> is what \<^verbatim>\<open>xr.open_dataset(path).dims.items()\<close> gives (the
  dimensions of the root variables), \<open>variables\<close> and \<open>groups\<close> are the root's variables and
  groups in the order of the file, \<open>virtual\<close> is the root's \<open>gvirtual\<close>. A path names a
  file that opens, or none.
\<close>

record dataset =
  dims :: "(string \<times> nat) list"
  variables :: "(string \<times> variable) list"
  groups :: "(string \<times> group) list"
  virtual :: "string \<Rightarrow> error + variable"

type_synonym files = "string \<Rightarrow> dataset option"

text \<open>\<^verbatim>\<open>netCDF4.Dataset(path)\<close> and \<^verbatim>\<open>xr.open_dataset(path)\<close>\<close>

definition open_file :: "files \<Rightarrow> string \<Rightarrow> error + dataset" where
  "open_file fs path = (case fs path of None \<Rightarrow> Inl OSError | Some ds \<Rightarrow> Inr ds)"

text \<open>\<^verbatim>\<open>group.strip("/")\<close>\<close>

definition strip_slashes :: "string \<Rightarrow> string" where
  "strip_slashes s = rev (dropWhile (\<lambda>c. c = CHR ''/'') (rev (dropWhile (\<lambda>c. c = CHR ''/'') s)))"

text \<open>\<^verbatim>\<open>s.split("/")\<close>\<close>

fun split_slash :: "string \<Rightarrow> string list" where
  "split_slash [] = [[]]"
| "split_slash (c # cs) =
     (if c = CHR ''/'' then [] # split_slash cs
      else (case split_slash cs of
              [] \<Rightarrow> [[c]]
            | x # xs \<Rightarrow> (c # x) # xs))"

text \<open>
  The loop \<^verbatim>\<open>for key in path: ds = ds.groups[key]\<close> of the way xarray finds a group:
  a key that is not a group of the group reached so far ends the search.
\<close>

fun walk :: "group \<Rightarrow> string list \<Rightarrow> group option" where
  "walk g [] = Some g"
| "walk g (key # path) =
     (case map_of (subgroups g) key of
        None \<Rightarrow> None
      | Some g' \<Rightarrow> walk g' path)"

text \<open>
  \<^verbatim>\<open>xr.open_dataset(path, backend_kwargs={"group": groupname})\<close>: the root for the empty
  name and for \<^verbatim>\<open>/\<close>; otherwise the group at the end of the name's path, the name
  stripped of slashes at both ends and split at the slashes, and \<^verbatim>\<open>OSError\<close> when a
  key of the path is not found.
\<close>

definition open_dataset :: "files \<Rightarrow> string \<Rightarrow> string \<Rightarrow> error + group" where
  "open_dataset fs path groupname =
     (case open_file fs path of
        Inl e \<Rightarrow> Inl e
      | Inr ds \<Rightarrow>
          if groupname = [] \<or> groupname = ''/'' then Inr (Group (variables ds) (virtual ds) (groups ds))
          else (case walk (Group (variables ds) (virtual ds) (groups ds))
                       (split_slash (strip_slashes groupname)) of
                  None \<Rightarrow> Inl OSError
                | Some g \<Rightarrow> Inr g))"

text \<open>The variables of the opened group, \<^verbatim>\<open>grp.variables\<close>.\<close>

definition open_group :: "files \<Rightarrow> string \<Rightarrow> string \<Rightarrow> error + (string \<times> variable) list" where
  "open_group fs path groupname =
     (case open_dataset fs path groupname of
        Inl e \<Rightarrow> Inl e
      | Inr g \<Rightarrow> Inr (gvariables g))"

text \<open>
  \<^verbatim>\<open>xr.open_dataset(path, backend_kwargs={"group": groupname})[varname]\<close>: the variable of
  that name, and for a name that is not a variable what xarray makes of it.
\<close>

definition open_variable :: "files \<Rightarrow> string \<Rightarrow> string \<Rightarrow> string \<Rightarrow> error + variable" where
  "open_variable fs path groupname varname =
     (case open_dataset fs path groupname of
        Inl e \<Rightarrow> Inl e
      | Inr g \<Rightarrow>
          (case map_of (gvariables g) varname of
             None \<Rightarrow> gvirtual g varname
           | Some v \<Rightarrow> Inr v))"

text \<open>
  The same as a step of a run: the variable just opened has read nothing yet, so the
  side is taken out of the cache.
\<close>

definition open_data_array :: "side \<Rightarrow> files \<Rightarrow> string \<Rightarrow> string \<Rightarrow> string \<Rightarrow> variable comp" where
  "open_data_array s fs path groupname varname = (\<lambda>w.
     case open_variable fs path groupname varname of
       Inl e \<Rightarrow> (Inl e, w)
     | Inr v \<Rightarrow> (Inr v, w\<lparr>cache := cache w - {s}\<rparr>))"

text \<open>\<^verbatim>\<open>compare_multiple_random_values\<close>; \<^verbatim>\<open>range(num_comparisons)\<close> is empty for a negative number.\<close>

definition compare_multiple_random_values ::
  "files \<Rightarrow> string \<Rightarrow> string \<Rightarrow> string \<Rightarrow> string \<Rightarrow> int \<Rightarrow> unit comp" where
  "compare_multiple_random_values fs nc_a nc_b groupname varname num_comparisons =
     and_then (open_data_array SideA fs nc_a groupname varname) (\<lambda>nc_var_a.
     and_then (open_data_array SideB fs nc_b groupname varname) (\<lambda>nc_var_b.
     and_then (sample_loop (nat num_comparisons) nc_var_a nc_var_b 0) (\<lambda>num_mismatches.
     and_then (if num_mismatches > 0 then emit (MismatchSummary num_mismatches num_comparisons)
               else emit NoMismatches) (\<lambda>_.
     emit SamplerDone))))"

text \<open>The default \<^verbatim>\<open>num_comparisons: int = 100\<close>.\<close>

definition default_num_comparisons :: int where
  "default_num_comparisons = 100"

subsection \<open>Listing\<close>

text \<open>
  \<^verbatim>\<open>arr[0, :]\<close>: the index needs two axes at least; the result is the sub-array at index 0
  of the first axis.
\<close>

definition getitem_first :: "ndarray \<Rightarrow> error + scalar list" where
  "getitem_first arr =
     (if length (nshape arr) < 2 then Inl IndexError
      else (case getitem arr [0] of Inl e \<Rightarrow> Inl e | Inr v \<Rightarrow> Inr (item_list v)))"

text \<open>
  \<^verbatim>\<open>_print_sample_values\<close>; the first argument says which of the two files the path is,
  for the log only.
\<close>

definition print_sample_values :: "side \<Rightarrow> files \<Rightarrow> string \<Rightarrow> string \<Rightarrow> string \<Rightarrow> unit comp" where
  "print_sample_values s fs nc_filepath groupname varname =
     and_then (open_data_array s fs nc_filepath groupname varname) (\<lambda>comparison_variable.
     and_then (values_of s comparison_variable) (\<lambda>vals.
     and_then (lift (getitem_first vals)) (\<lambda>row.
     emit (SampleValues row))))"

text \<open>\<^verbatim>\<open>_print_vars\<close>: an \<^verbatim>\<open>OSError\<close> of the opening is reported and raised again.\<close>

definition print_vars :: "files \<Rightarrow> string \<Rightarrow> string \<Rightarrow> string list comp" where
  "print_vars fs nc_filepath groupname =
     (case open_group fs nc_filepath groupname of
        Inl OSError \<Rightarrow> and_then (emit (OpenGroupError nc_filepath)) (\<lambda>_. throw OSError)
      | Inl e \<Rightarrow> throw e
      | Inr grp \<Rightarrow>
          and_then (emit (PrintedNames (sort (map fst grp)))) (\<lambda>_.
          ret (sort (map fst grp))))"

text \<open>\<^verbatim>\<open>_get_groups\<close>\<close>

definition get_groups :: "files \<Rightarrow> string \<Rightarrow> bool \<Rightarrow> string list comp" where
  "get_groups fs nc_filepath print_list =
     and_then (lift (open_file fs nc_filepath)) (\<lambda>ds.
     and_then (if print_list then emit (PrintedNames (sort (map fst (groups ds)))) else ret ()) (\<lambda>_.
     ret (map fst (groups ds))))"

text \<open>\<^verbatim>\<open>_get_dims\<close>\<close>

definition get_dims :: "files \<Rightarrow> string \<Rightarrow> bool \<Rightarrow> (string \<times> nat) list comp" where
  "get_dims fs nc_filepath print_list =
     and_then (lift (open_file fs nc_filepath)) (\<lambda>ds.
     and_then (if print_list then emit (PrintedDims (sort_key fst (dims ds))) else ret ()) (\<lambda>_.
     ret (dims ds)))"

subsection \<open>The table of all variables\<close>

text \<open>Python's truth value of an optional string: \<^verbatim>\<open>None\<close> and the empty string are false.\<close>

fun truthy :: "string option \<Rightarrow> bool" where
  "truthy None = False"
| "truthy (Some s) = (s \<noteq> [])"

text \<open>\<^verbatim>\<open>_var_properties\<close>: the variable, its dtype, its shape and its chunking.\<close>

definition var_properties ::
  "dataset \<Rightarrow> string \<Rightarrow> string option \<Rightarrow> error + (variable option \<times> string \<times> nat list option \<times> string)" where
  "var_properties ds varname groupname =
     (if varname \<noteq> [] then
        (case (if truthy groupname then
                 (case map_of (groups ds) (the groupname) of
                    None \<Rightarrow> Inl (KeyError (the groupname))
                  | Some g \<Rightarrow>
                      (case map_of (gvariables g) varname of
                         None \<Rightarrow> Inl (KeyError varname)
                       | Some v \<Rightarrow> Inr v))
               else
                 (case map_of (variables ds) varname of
                    None \<Rightarrow> Inl (KeyError varname)
                  | Some v \<Rightarrow> Inr v)) of
           Inl e \<Rightarrow> Inl e
         | Inr the_variable \<Rightarrow>
             Inr (Some the_variable, dtype the_variable, Some (shape the_variable),
                  chunking the_variable))
      else Inr (None, [], None, []))"

text \<open>
  \<^verbatim>\<open>getattr(variable, 'scale_factor', None)\<close> when it is true (there and not zero), and the
  blank otherwise.
\<close>

definition sf_of :: "variable option \<Rightarrow> sf_text" where
  "sf_of v =
     (case v of
        None \<Rightarrow> SfBlank
      | Some var \<Rightarrow>
          (case scale_factor var of
             None \<Rightarrow> SfBlank
           | Some sf \<Rightarrow> if sf = Fin 0 then SfBlank else SfStr sf))"

text \<open>\<^verbatim>\<open>_print_var_properties_side_by_side\<close>\<close>

definition print_var_properties_side_by_side ::
  "string \<Rightarrow> string \<Rightarrow> dataset \<Rightarrow> dataset \<Rightarrow> string option \<Rightarrow> string option \<Rightarrow> bool \<Rightarrow> unit comp" where
  "print_var_properties_side_by_side v_a v_b nc_a nc_b g_a g_b show_chunks =
     and_then (emit (VarRow (take 47 v_a) (take 47 v_b))) (\<lambda>_.
     and_then (lift (var_properties nc_a v_a g_a)) (\<lambda>(variable_a, v_a_dtype, v_a_shape, v_a_chunking).
     and_then (lift (var_properties nc_b v_b g_b)) (\<lambda>(variable_b, v_b_dtype, v_b_shape, v_b_chunking).
     and_then (emit (DtypeRow v_a_dtype v_b_dtype)) (\<lambda>_.
     and_then (emit (ShapeRow v_a_shape v_b_shape)) (\<lambda>_.
     and_then (if show_chunks then emit (ChunkRow v_a_chunking v_b_chunking) else ret ()) (\<lambda>_.
     emit (SfRow (sf_of variable_a) (sf_of variable_b))))))))"

text \<open>The loop over the rows that \<^verbatim>\<open>common_elements\<close> gives for the variables of one group.\<close>

fun variable_rows ::
  "dataset \<Rightarrow> dataset \<Rightarrow> string option \<Rightarrow> string option \<Rightarrow> bool \<Rightarrow> (nat \<times> string \<times> string) list \<Rightarrow> unit comp" where
  "variable_rows nc_a nc_b g_a g_b show_chunks [] = ret ()"
| "variable_rows nc_a nc_b g_a g_b show_chunks ((v_idx, v_a, v_b) # rows) =
     and_then (print_var_properties_side_by_side v_a v_b nc_a nc_b g_a g_b show_chunks) (\<lambda>_.
     variable_rows nc_a nc_b g_a g_b show_chunks rows)"

text \<open>\<^verbatim>\<open>str.strip()\<close>\<close>

definition is_space :: "char \<Rightarrow> bool" where
  "is_space c = (c \<in> set [CHR '' '', CHR 0x09, CHR 0x0A, CHR 0x0B, CHR 0x0C, CHR 0x0D])"

definition strip :: "string \<Rightarrow> string" where
  "strip s = rev (dropWhile is_space (rev (dropWhile is_space s)))"

text \<open>\<^verbatim>\<open>sorted(nc.groups[g].variables)\<close> when the group name is not empty, and nothing otherwise.\<close>

definition sorted_group_variables :: "dataset \<Rightarrow> string \<Rightarrow> error + string list" where
  "sorted_group_variables nc g =
     (if g \<noteq> [] then
        (case map_of (groups nc) g of
           None \<Rightarrow> Inl (KeyError g)
         | Some grp \<Rightarrow> Inr (sort (map fst (gvariables grp))))
      else Inr [])"

text \<open>
  The loop over the rows that \<^verbatim>\<open>common_elements\<close> gives for the groups. The function
  \<^verbatim>\<open>common_elements\<close> of \<^verbatim>\<open>ncompare.sequence_operations\<close> is a parameter.
\<close>

fun group_rows ::
  "(string list \<Rightarrow> string list \<Rightarrow> (nat \<times> string \<times> string) list) \<Rightarrow>
   dataset \<Rightarrow> dataset \<Rightarrow> bool \<Rightarrow> (nat \<times> string \<times> string) list \<Rightarrow> unit comp" where
  "group_rows common_elements nc_a nc_b show_chunks [] = ret ()"
| "group_rows common_elements nc_a nc_b show_chunks ((g_idx, g_a, g_b) # rows) =
     and_then (emit (GroupRow g_idx (strip g_a) (strip g_b))) (\<lambda>_.
     and_then (lift (sorted_group_variables nc_a g_a)) (\<lambda>vars_a_sorted.
     and_then (lift (sorted_group_variables nc_b g_b)) (\<lambda>vars_b_sorted.
     and_then (emit (NumVarsGroup (length vars_a_sorted) (length vars_b_sorted))) (\<lambda>_.
     and_then (record_call (Align (GroupVariables g_a g_b) vars_a_sorted vars_b_sorted)) (\<lambda>_.
     and_then (variable_rows nc_a nc_b (Some g_a) (Some g_b) show_chunks
                 (common_elements vars_a_sorted vars_b_sorted)) (\<lambda>_.
     group_rows common_elements nc_a nc_b show_chunks rows))))))"

text \<open>\<^verbatim>\<open>compare_two_nc_files\<close>\<close>

definition compare_two_nc_files ::
  "(string list \<Rightarrow> string list \<Rightarrow> (nat \<times> string \<times> string) list) \<Rightarrow>
   files \<Rightarrow> string \<Rightarrow> string \<Rightarrow> bool \<Rightarrow> unit comp" where
  "compare_two_nc_files common_elements fs nc_one nc_two show_chunks =
     and_then (emit TableHeader) (\<lambda>_.
     and_then (lift (open_file fs nc_one)) (\<lambda>nc_a.
     and_then (lift (open_file fs nc_two)) (\<lambda>nc_b.
     and_then (emit DashLine) (\<lambda>_.
     and_then (emit (NumVarsRoot (length (variables nc_a)) (length (variables nc_b)))) (\<lambda>_.
     and_then (record_call (Align RootVariables (map fst (variables nc_a)) (map fst (variables nc_b)))) (\<lambda>_.
     and_then (variable_rows nc_a nc_b None None show_chunks
                 (common_elements (map fst (variables nc_a)) (map fst (variables nc_b)))) (\<lambda>_.
     and_then (record_call (Align RootGroups (map fst (groups nc_a)) (map fst (groups nc_b)))) (\<lambda>_.
     group_rows common_elements nc_a nc_b show_chunks
       (common_elements (map fst (groups nc_a)) (map fst (groups nc_b)))))))))))"

subsection \<open>The orchestrator\<close>

text \<open>\<^verbatim>\<open>try: ... except KeyError: ...\<close>\<close>

definition except_KeyError :: "'a comp \<Rightarrow> (error \<Rightarrow> 'a comp) \<Rightarrow> 'a comp" where
  "except_KeyError body handler = (\<lambda>w.
     case body w of
       (Inl (KeyError k), w') \<Rightarrow> handler (KeyError k) w'
     | r \<Rightarrow> r)"

text \<open>The body of the \<^verbatim>\<open>try\<close> of \<^verbatim>\<open>run_through_comparisons\<close>.\<close>

definition inspect_variable :: "files \<Rightarrow> string \<Rightarrow> string \<Rightarrow> string \<Rightarrow> string \<Rightarrow> unit comp" where
  "inspect_variable fs nc_a nc_b comparison_var_group comparison_var_name =
     and_then (emit (SampleHeader comparison_var_name)) (\<lambda>_.
     and_then (print_sample_values SideA fs nc_a comparison_var_group comparison_var_name) (\<lambda>_.
     and_then (print_sample_values SideB fs nc_b comparison_var_group comparison_var_name) (\<lambda>_.
     and_then (emit (CheckingHeader comparison_var_name)) (\<lambda>_.
     compare_multiple_random_values fs nc_a nc_b comparison_var_group comparison_var_name
       default_num_comparisons))))"

text \<open>The statement \<^verbatim>\<open>if comparison_var_group: ... else: ...\<close> of \<^verbatim>\<open>run_through_comparisons\<close>.\<close>

definition selected_group ::
  "files \<Rightarrow> string \<Rightarrow> string \<Rightarrow> string option \<Rightarrow> string option \<Rightarrow> unit comp" where
  "selected_group fs nc_a nc_b comparison_var_group comparison_var_name =
     (if truthy comparison_var_group then
        and_then (emit (GroupVarsHeader (the comparison_var_group))) (\<lambda>_.
        and_then (print_vars fs nc_a (the comparison_var_group)) (\<lambda>vlist_a.
        and_then (print_vars fs nc_b (the comparison_var_group)) (\<lambda>vlist_b.
        and_then (emit (ListsDiff vlist_a vlist_b)) (\<lambda>_.
        if truthy comparison_var_name then
          except_KeyError
            (inspect_variable fs nc_a nc_b (the comparison_var_group) (the comparison_var_name))
            (\<lambda>e.
               and_then (emit (LookupErrorReport (the comparison_var_name) (the comparison_var_group))) (\<lambda>_.
               and_then (emit (Traceback e)) (\<lambda>_.
               emit Newline)))
        else emit NoVariableSelected))))
      else emit NoGroupSelected)"

text \<open>\<^verbatim>\<open>run_through_comparisons\<close>\<close>

definition run_through_comparisons ::
  "(string list \<Rightarrow> string list \<Rightarrow> (nat \<times> string \<times> string) list) \<Rightarrow>
   files \<Rightarrow> string \<Rightarrow> string \<Rightarrow> string option \<Rightarrow> string option \<Rightarrow> bool \<Rightarrow> unit comp" where
  "run_through_comparisons common_elements fs nc_a nc_b comparison_var_group comparison_var_name show_chunks =
     and_then (emit RootDimsHeader) (\<lambda>_.
     and_then (get_dims fs nc_a False) (\<lambda>list_a.
     and_then (get_dims fs nc_b False) (\<lambda>list_b.
     and_then (emit (ListsDiffDims list_a list_b)) (\<lambda>_.
     and_then (emit GroupsHeader) (\<lambda>_.
     and_then (get_groups fs nc_a False) (\<lambda>list_a.
     and_then (get_groups fs nc_b False) (\<lambda>list_b.
     and_then (emit (ListsDiff list_a list_b)) (\<lambda>_.
     and_then (selected_group fs nc_a nc_b comparison_var_group comparison_var_name) (\<lambda>_.
     and_then (emit AllVariablesHeader) (\<lambda>_.
     compare_two_nc_files common_elements fs nc_a nc_b show_chunks))))))))))"

subsection \<open>The entry point and the styling namespaces\<close>

text \<open>
  The state of the process that \<^verbatim>\<open>compare\<close> writes: the attribute dictionaries of
  colorama's \<^verbatim>\<open>Fore\<close> and \<^verbatim>\<open>Style\<close> objects, and whether \<^verbatim>\<open>colorama.init\<close>
  has been called. No other function of the module assigns to it, so the rest of a run
  does not carry it.
\<close>

record styling =
  Fore :: "(string \<times> string) list"
  Style :: "(string \<times> string) list"
  colorama_init :: bool

text \<open>The loop \<^verbatim>\<open>for k, v in D.__dict__.items(): D.__dict__[k] = ""\<close>.\<close>

definition blank_all :: "(string \<times> string) list \<Rightarrow> (string \<times> string) list" where
  "blank_all d = map (\<lambda>(k, v). (k, [])) d"

text \<open>
  \<^verbatim>\<open>compare\<close>. The function \<^verbatim>\<open>make_valid_path\<close> of \<^verbatim>\<open>ncompare.utils\<close> is a parameter:
  it gives the path or raises.
\<close>

definition compare ::
  "(string \<Rightarrow> error + string) \<Rightarrow>
   (string list \<Rightarrow> string list \<Rightarrow> (nat \<times> string \<times> string) list) \<Rightarrow>
   files \<Rightarrow> string \<Rightarrow> string \<Rightarrow> string option \<Rightarrow> string option \<Rightarrow> bool \<Rightarrow> bool \<Rightarrow>
   styling \<Rightarrow> world \<Rightarrow> ((error + unit) \<times> world) \<times> styling" where
  "compare make_valid_path common_elements fs nc_a nc_b comparison_var_group comparison_var_name
     no_color show_chunks st w =
     (case make_valid_path nc_a of
        Inl e \<Rightarrow> ((Inl e, w), st)
      | Inr path_a \<Rightarrow>
          (case make_valid_path nc_b of
             Inl e \<Rightarrow> ((Inl e, w), st)
           | Inr path_b \<Rightarrow>
               (and_then (emit (FileA path_a)) (\<lambda>_.
                and_then (emit (FileB path_b)) (\<lambda>_.
                and_then (run_through_comparisons common_elements fs path_a path_b
                            comparison_var_group comparison_var_name show_chunks) (\<lambda>_.
                emit FinalDone))) w,
                if no_color then st\<lparr>Fore := blank_all (Fore st), Style := blank_all (Style st)\<rparr>
                else st\<lparr>colorama_init := True\<rparr>)))"

subsection \<open>What a computation prints and logs\<close>

text \<open>The text a computation adds to the output, and the entries it adds to the log.\<close>

definition printed :: "'a comp \<Rightarrow> world \<Rightarrow> message list" where
  "printed m w = drop (length (out w)) (out (snd (m w)))"

definition logged :: "'a comp \<Rightarrow> world \<Rightarrow> event list" where
  "logged m w = drop (length (calls w)) (calls (snd (m w)))"

text \<open>
  A computation only ever adds to the output and to the log; \<open>produces P Q m\<close> says that from
  every world all it prints satisfies \<open>P\<close> and all it logs satisfies \<open>Q\<close>.
\<close>

definition produces :: "(message \<Rightarrow> bool) \<Rightarrow> (event \<Rightarrow> bool) \<Rightarrow> 'a comp \<Rightarrow> bool" where
  "produces P Q m =
     (\<forall>w. \<exists>ms cs. out (snd (m w)) = out w @ ms \<and> calls (snd (m w)) = calls w @ cs
               \<and> list_all P ms \<and> list_all Q cs)"

named_theorems produces_intros

text \<open>The progress markers of the sampler.\<close>

fun is_marker :: "message \<Rightarrow> bool" where
  "is_marker (Marker s) = True"
| "is_marker _ = False"

text \<open>Every component of an index lies in \<open>[0, extent)\<close> of its axis, one component an axis.\<close>

definition in_range :: "int list \<Rightarrow> nat list \<Rightarrow> bool" where
  "in_range idx ds = list_all2 (\<lambda>i d. 0 \<le> i \<and> i < int d) idx ds"

text \<open>The lines of the sampler's report of a difference.\<close>

fun is_diff_report :: "message \<Rightarrow> bool" where
  "is_diff_report Newline = True"
| "is_diff_report (DiffExceeded d) = True"
| "is_diff_report (VarShape s) = True"
| "is_diff_report (Indices i) = True"
| "is_diff_report (ValueA v) = True"
| "is_diff_report (ValueB v) = True"
| "is_diff_report _ = False"

text \<open>The rows of the table of all variables.\<close>

fun is_table_row :: "message \<Rightarrow> bool" where
  "is_table_row TableHeader = True"
| "is_table_row DashLine = True"
| "is_table_row (NumVarsRoot a b) = True"
| "is_table_row (GroupRow i a b) = True"
| "is_table_row (NumVarsGroup a b) = True"
| "is_table_row (VarRow a b) = True"
| "is_table_row (DtypeRow a b) = True"
| "is_table_row (ShapeRow a b) = True"
| "is_table_row (ChunkRow a b) = True"
| "is_table_row (SfRow a b) = True"
| "is_table_row _ = False"

text \<open>What only the listing of the selected group prints.\<close>

fun group_listing_message :: "message \<Rightarrow> bool" where
  "group_listing_message (GroupVarsHeader g) = True"
| "group_listing_message (OpenGroupError p) = True"
| "group_listing_message (PrintedNames xs) = True"
| "group_listing_message _ = False"

text \<open>
  What only the inspection of the selected variable prints: the sample values, the
  sampler's markers, reports and summary, and the report of a failed lookup.
\<close>

fun inspection_message :: "message \<Rightarrow> bool" where
  "inspection_message (SampleHeader v) = True"
| "inspection_message (SampleValues xs) = True"
| "inspection_message (CheckingHeader v) = True"
| "inspection_message (Marker c) = True"
| "inspection_message (MismatchSummary k n) = True"
| "inspection_message NoMismatches = True"
| "inspection_message SamplerDone = True"
| "inspection_message (LookupErrorReport v g) = True"
| "inspection_message (Traceback e) = True"
| "inspection_message m = is_diff_report m"

text \<open>
  The number of array elements that the \<^verbatim>\<open>.values\<close> calls of a log have produced for the
  variable of one file.
\<close>

fun elements_read :: "side \<Rightarrow> event list \<Rightarrow> nat" where
  "elements_read s [] = 0"
| "elements_read s (Materialise s' k # evs) = (if s' = s then k else 0) + elements_read s evs"
| "elements_read s (Align p xs ys # evs) = elements_read s evs"

text \<open>
  The part of \<^verbatim>\<open>_match_random_value\<close> after the random indexer: what it does with a given
  index.
\<close>

definition evaluate_at :: "variable \<Rightarrow> variable \<Rightarrow> scalar \<Rightarrow> int list \<Rightarrow> bool option comp" where
  "evaluate_at nc_var_a nc_var_b thresh rand_index =
     and_then (values_of SideA nc_var_a) (\<lambda>values_a.
     and_then (lift (getitem values_a rand_index)) (\<lambda>v1.
     and_then (values_of SideB nc_var_b) (\<lambda>values_b.
     and_then (lift (getitem values_b rand_index)) (\<lambda>v2.
     and_then (lift (truth (map_item isnan v1))) (\<lambda>nan1.
     and_then (if nan1 then ret True else lift (truth (map_item isnan v2))) (\<lambda>missing.
     if missing then ret None
     else
       and_then (lift (truth (map_item (\<lambda>d. fgt (fabs d) thresh) (item_sub v2 v1)))) (\<lambda>exceeded.
       if exceeded then
         and_then (emit Newline) (\<lambda>_.
         and_then (emit (DiffExceeded (item_sub v2 v1))) (\<lambda>_.
         and_then (emit (VarShape (shape nc_var_a))) (\<lambda>_.
         and_then (emit (Indices rand_index)) (\<lambda>_.
         and_then (emit (ValueA v1)) (\<lambda>_.
         and_then (emit (ValueB v2)) (\<lambda>_.
         ret (Some False)))))))
       else ret (Some True))))))))"

text \<open>
  Between two worlds of a run on variables of \<open>ka\<close> and \<open>kb\<close> elements: what has been read
  of each variable since the first world is its whole array if it has come into the cache
  since, and nothing otherwise.
\<close>

definition reads_once :: "nat \<Rightarrow> nat \<Rightarrow> world \<Rightarrow> world \<Rightarrow> bool" where
  "reads_once ka kb w w' =
     (cache w \<subseteq> cache w'
      \<and> (\<exists>cs. calls w' = calls w @ cs
            \<and> elements_read SideA cs = (if SideA \<in> cache w' - cache w then ka else 0)
            \<and> elements_read SideB cs = (if SideB \<in> cache w' - cache w then kb else 0)))"

text \<open>The marker that the loop of the sampler prints for the result of a draw.\<close>

fun marker_of :: "bool option \<Rightarrow> string" where
  "marker_of (Some True) = ''.''"
| "marker_of None = ''n''"
| "marker_of (Some False) = ''x''"

text \<open>
  The result of one sampling step that starts at number \<open>i\<close> times the number of axes of
  the random source \<open>g\<close>, with nothing printed, logged or read before: the draw number \<open>i\<close>
  of a run, taken by itself.
\<close>

definition nth_draw :: "variable \<Rightarrow> variable \<Rightarrow> scalar \<Rightarrow> (nat \<Rightarrow> nat) \<Rightarrow> nat \<Rightarrow> error + bool option" where
  "nth_draw a b thresh g i =
     fst (match_random_value a b thresh
            \<lparr>rng = (\<lambda>j. g (i * length (shape a) + j)), out = [], calls = [], cache = {}\<rparr>)"

text \<open>The names given to \<^verbatim>\<open>common_elements\<close> for the variables of a group are sorted.\<close>

fun sorted_listing :: "event \<Rightarrow> bool" where
  "sorted_listing (Align (GroupVariables g_a g_b) xs ys) = (sorted xs \<and> sorted ys)"
| "sorted_listing _ = True"

subsection \<open>Concrete inputs\<close>

text \<open>A variable of a given shape with the same value at every index.\<close>

definition const_variable :: "nat list \<Rightarrow> scalar \<Rightarrow> variable" where
  "const_variable sh x =
     \<lparr>dtype = ''float64'', shape = sh, chunking = ''None'', scale_factor = None,
      element = (\<lambda>_. x)\<rparr>"

text \<open>A world where nothing has been printed and the random source gives \<open>r\<close> each time.\<close>

definition fixed_world :: "nat \<Rightarrow> world" where
  "fixed_world r = \<lparr>rng = (\<lambda>_. r), out = [], calls = [], cache = {}\<rparr>"

text \<open>
  The values \<open>0, ..., n - 1\<close> along one axis, as xarray makes them for a dimension: integers,
  which the scalars hold exactly.
\<close>

definition index_variable :: "nat \<Rightarrow> variable" where
  "index_variable n =
     \<lparr>dtype = ''int64'', shape = [n], chunking = ''None'', scale_factor = None,
      element = (\<lambda>idx. Fin (real (hd idx)))\<rparr>"

text \<open>
  \<open>gvirtual\<close> for a group whose dimensions without a coordinate variable are \<open>ds\<close>, on the
  names without a dot.
\<close>

definition dimension_lookup :: "(string \<times> nat) list \<Rightarrow> string \<Rightarrow> error + variable" where
  "dimension_lookup ds name =
     (case map_of ds name of
        None \<Rightarrow> Inl (KeyError name)
      | Some n \<Rightarrow> Inr (index_variable n))"

text \<open>
  A file with the dimension \<^verbatim>\<open>x\<close> and its coordinate variable in the root, and one
  group \<^verbatim>\<open>g\<close> holding one variable \<^verbatim>\<open>v\<close>.
\<close>

definition one_group_file :: "variable \<Rightarrow> dataset" where
  "one_group_file var =
     \<lparr>dims = [(''x'', 3)], variables = [(''x'', index_variable 3)],
      groups = [(''g'', Group [(''v'', var)] (dimension_lookup [(''x'', 3)]) [])],
      virtual = dimension_lookup []\<rparr>"

text \<open>The two paths \<^verbatim>\<open>a.nc\<close> and \<^verbatim>\<open>b.nc\<close>, and no other file.\<close>

definition two_files :: "dataset \<Rightarrow> dataset \<Rightarrow> files" where
  "two_files da db = (\<lambda>p. if p = ''a.nc'' then Some da else if p = ''b.nc'' then Some db else None)"

text \<open>A file whose root variables are not in sorted order.\<close>

definition unsorted_file :: dataset where
  "unsorted_file =
     \<lparr>dims = [(''x'', 3)],
      variables = [(''b'', const_variable [3] (Fin 1)), (''a'', const_variable [3] (Fin 1))],
      groups = [], virtual = dimension_lookup [(''x'', 3)]\<rparr>"

text \<open>
  A stand-in for \<^verbatim>\<open>common_elements\<close> in concrete runs: the names that both lists hold, in
  the order of the first list, each paired with itself.
\<close>

definition shared_names :: "string list \<Rightarrow> string list \<Rightarrow> (nat \<times> string \<times> string) list" where
  "shared_names xs ys = map (\<lambda>(i, x). (i, x, x)) (enumerate 0 (filter (\<lambda>x. x \<in> set ys) xs))"

text \<open>Two attributes of \<^verbatim>\<open>Fore\<close> and two of \<^verbatim>\<open>Style\<close>, with their escape sequences.\<close>

definition colorama_styling :: styling where
  "colorama_styling =
     \<lparr>Fore = [(''RED'', CHR 0x1B # ''[31m''), (''RESET'', CHR 0x1B # ''[39m'')],
      Style = [(''BRIGHT'', CHR 0x1B # ''[1m''), (''RESET_ALL'', CHR 0x1B # ''[0m'')],
      colorama_init = False\<rparr>"

section \<open>Properties\<close>

subsection \<open>Sequencing\<close>

lemma and_then_ret [simp]: "and_then (ret x) f = f x"
  by (simp add: and_then_def ret_def)

lemma and_then_throw [simp]: "and_then (throw e) f = throw e"
  by (simp add: and_then_def throw_def)

lemma and_then_lift_Inr [simp]: "and_then (lift (Inr x)) f = f x"
  by (simp add: and_then_def lift_def)

lemma and_then_lift_Inl [simp]: "and_then (lift (Inl e)) f = throw e"
  by (simp add: and_then_def lift_def throw_def)

lemma and_then_emit [simp]: "and_then (emit m) f w = f () (w\<lparr>out := out w @ [m]\<rparr>)"
  by (simp add: and_then_def emit_def)

lemma and_then_record_call [simp]:
  "and_then (record_call ev) f w = f () (w\<lparr>calls := calls w @ [ev]\<rparr>)"
  by (simp add: and_then_def record_call_def)

lemma and_then_assoc: "and_then (and_then m f) g = and_then m (\<lambda>x. and_then (f x) g)"
  by (auto simp: and_then_def fun_eq_iff split: prod.splits sum.splits)

lemma and_then_Inr: "m w = (Inr x, w') \<Longrightarrow> and_then m f w = f x w'"
  by (simp add: and_then_def)

lemma and_then_Inl: "m w = (Inl e, w') \<Longrightarrow> and_then m f w = (Inl e, w')"
  by (simp add: and_then_def)

lemma ret_apply [simp]: "ret x w = (Inr x, w)"
  by (simp add: ret_def)

lemma throw_apply [simp]: "throw e w = (Inl e, w)"
  by (simp add: throw_def)

lemma emit_apply [simp]: "emit m w = (Inr (), w\<lparr>out := out w @ [m]\<rparr>)"
  by (simp add: emit_def)

lemma and_then_Pair_Inr [simp]: "and_then (Pair (Inr x)) f = f x"
  by (simp add: and_then_def)

lemma and_then_Pair_Inl [simp]: "and_then (Pair (Inl e)) f = Pair (Inl e)"
  by (simp add: and_then_def)

lemma values_of_apply [simp]:
  "and_then (values_of s v) f w =
   f \<lparr>nshape = shape v, nelement = element v\<rparr> (after_values s v w)"
  by (simp add: values_of_def and_then_def)

lemma produces_ret [produces_intros]: "produces P Q (ret x)"
  by (simp add: produces_def ret_def)

lemma produces_throw [produces_intros]: "produces P Q (throw e)"
  by (simp add: produces_def throw_def)

lemma produces_lift [produces_intros]: "produces P Q (lift r)"
  by (simp add: produces_def lift_def)

lemma produces_emit [produces_intros]: "P m \<Longrightarrow> produces P Q (emit m)"
  by (simp add: produces_def emit_def)

lemma produces_record_call [produces_intros]: "Q ev \<Longrightarrow> produces P Q (record_call ev)"
  by (simp add: produces_def record_call_def)

lemma produces_and_then [produces_intros]:
  assumes m: "produces P Q m" and f: "\<And>x. produces P Q (f x)"
  shows "produces P Q (and_then m f)"
  unfolding produces_def
proof
  fix w
  obtain r w1 where mw: "m w = (r, w1)" by (cases "m w")
  from m [unfolded produces_def, rule_format, of w] mw
  obtain ms cs where 1: "out w1 = out w @ ms" "calls w1 = calls w @ cs" "list_all P ms" "list_all Q cs"
    by auto
  show "\<exists>ms cs. out (snd (and_then m f w)) = out w @ ms \<and> calls (snd (and_then m f w)) = calls w @ cs
               \<and> list_all P ms \<and> list_all Q cs"
  proof (cases r)
    case (Inl e)
    with mw 1 show ?thesis by (simp add: and_then_def)
  next
    case (Inr x)
    from f [of x, unfolded produces_def, rule_format, of w1]
    obtain ms' cs' where 2: "out (snd (f x w1)) = out w1 @ ms'" "calls (snd (f x w1)) = calls w1 @ cs'"
      "list_all P ms'" "list_all Q cs'"
      by auto
    have "and_then m f w = f x w1" using mw Inr by (simp add: and_then_def)
    with 1 2 show ?thesis by simp
  qed
qed

lemma produces_weaken:
  "produces P Q m \<Longrightarrow> (\<And>x. P x \<Longrightarrow> P' x) \<Longrightarrow> (\<And>c. Q c \<Longrightarrow> Q' c) \<Longrightarrow> produces P' Q' m"
  unfolding produces_def list_all_iff by blast

lemma produces_if [produces_intros]:
  "(c \<Longrightarrow> produces P Q m) \<Longrightarrow> (\<not> c \<Longrightarrow> produces P Q n) \<Longrightarrow> produces P Q (if c then m else n)"
  by simp

lemma produces_except_KeyError [produces_intros]:
  assumes m: "produces P Q m" and h: "\<And>e. produces P Q (h e)"
  shows "produces P Q (except_KeyError m h)"
  unfolding produces_def
proof
  fix w
  obtain r w1 where mw: "m w = (r, w1)" by (cases "m w")
  from m [unfolded produces_def, rule_format, of w] mw
  obtain ms cs where 1: "out w1 = out w @ ms" "calls w1 = calls w @ cs" "list_all P ms" "list_all Q cs"
    by auto
  show "\<exists>ms cs. out (snd (except_KeyError m h w)) = out w @ ms
               \<and> calls (snd (except_KeyError m h w)) = calls w @ cs
               \<and> list_all P ms \<and> list_all Q cs"
  proof (cases "\<exists>k. r = Inl (KeyError k)")
    case True
    then obtain k where r: "r = Inl (KeyError k)" by blast
    from h [of "KeyError k", unfolded produces_def, rule_format, of w1]
    obtain ms' cs' where 2: "out (snd (h (KeyError k) w1)) = out w1 @ ms'"
      "calls (snd (h (KeyError k) w1)) = calls w1 @ cs'" "list_all P ms'" "list_all Q cs'"
      by auto
    have "except_KeyError m h w = h (KeyError k) w1" using mw r by (simp add: except_KeyError_def)
    with 1 2 show ?thesis by simp
  next
    case False
    then have "except_KeyError m h w = (r, w1)"
      using mw by (auto simp: except_KeyError_def split: sum.splits error.splits)
    with 1 show ?thesis by simp
  qed
qed

lemma produces_randint [produces_intros]: "produces P Q (randint a b)"
  by (simp add: produces_def randint_def)

lemma produces_draw_index [produces_intros]: "produces P Q (draw_index ds)"
proof (induction ds)
  case Nil
  show ?case unfolding draw_index.simps by (rule produces_ret)
next
  case (Cons d ds)
  show ?case unfolding draw_index.simps by (intro produces_intros Cons.IH)
qed

lemma produces_values_of [produces_intros]:
  "Q (Materialise s (prod_list (shape v))) \<Longrightarrow> produces P Q (values_of s v)"
  by (simp add: produces_def values_of_def after_values_def)

lemma produces_open_data_array [produces_intros]:
  "produces P Q (open_data_array s fs path g v)"
  by (simp add: produces_def open_data_array_def split: sum.splits)

lemma produces_out:
  "produces P Q m \<Longrightarrow> out (snd (m w)) = out w @ printed m w \<and> list_all P (printed m w)"
  unfolding produces_def printed_def
  by (metis append_eq_conv_conj)

lemma produces_calls:
  "produces P Q m \<Longrightarrow> calls (snd (m w)) = calls w @ logged m w \<and> list_all Q (logged m w)"
  unfolding produces_def logged_def
  by (metis append_eq_conv_conj)

subsection \<open>Rounding\<close>

lemma round64_zero [simp]: "round64 0 = Fin 0"
  by (simp add: round64_def)







subsection \<open>One draw\<close>

lemma randint_frame:
  "randint a b w = (r, w') \<Longrightarrow> out w' = out w \<and> calls w' = calls w \<and> cache w' = cache w"
  by (auto simp: randint_def split: if_splits)

lemma randint_zero_based:
  "randint 0 (int d - 1) w = (Inr i, w') \<Longrightarrow> 0 \<le> i \<and> i < int d"
  by (auto simp: randint_def split: if_splits)

lemma randint_rng:
  "randint a b w = (Inr i, w') \<Longrightarrow> rng w' = (\<lambda>j. rng w (Suc j))"
  by (auto simp: randint_def split: if_splits)

lemma randint_cong:
  "rng w = rng v \<Longrightarrow> fst (randint a b w) = fst (randint a b v)
     \<and> rng (snd (randint a b w)) = rng (snd (randint a b v))"
  by (simp add: randint_def)

lemma draw_index_Cons:
  "randint 0 (int d - 1) w = (Inr i, w1) \<Longrightarrow> draw_index ds w1 = (r, w2) \<Longrightarrow>
   draw_index (d # ds) w = (case r of Inl e \<Rightarrow> Inl e | Inr js \<Rightarrow> Inr (i # js), w2)"
  by (cases r) (simp_all add: and_then_def ret_def)

lemma draw_index_Cons_Inl:
  "randint 0 (int d - 1) w = (Inl e, w1) \<Longrightarrow> draw_index (d # ds) w = (Inl e, w1)"
  by (simp add: and_then_def)

declare draw_index.simps(2) [simp del]

lemma draw_index_frame:
  "draw_index ds w = (r, w') \<Longrightarrow> out w' = out w \<and> calls w' = calls w \<and> cache w' = cache w"
proof (induction ds arbitrary: w r w')
  case Nil
  then show ?case by (auto simp: ret_def)
next
  case (Cons d ds)
  obtain r1 w1 where r1: "randint 0 (int d - 1) w = (r1, w1)" by (cases "randint 0 (int d - 1) w")
  note f1 = randint_frame [OF r1]
  show ?case
  proof (cases r1)
    case (Inl e)
    with Cons.prems r1 f1 show ?thesis by (simp add: draw_index_Cons_Inl)
  next
    case (Inr i)
    obtain r2 w2 where r2: "draw_index ds w1 = (r2, w2)" by (cases "draw_index ds w1")
    note f2 = Cons.IH [OF r2]
    from r1 Inr have "randint 0 (int d - 1) w = (Inr i, w1)" by simp
    from draw_index_Cons [OF this r2] Cons.prems have "w' = w2" by simp
    with f1 f2 show ?thesis by simp
  qed
qed

lemma draw_index_in_range:
  "draw_index ds w = (Inr idx, w') \<Longrightarrow> in_range idx ds"
proof (induction ds arbitrary: w idx w')
  case Nil
  then show ?case by (simp add: in_range_def ret_def)
next
  case (Cons d ds)
  obtain r1 w1 where r1: "randint 0 (int d - 1) w = (r1, w1)" by (cases "randint 0 (int d - 1) w")
  show ?case
  proof (cases r1)
    case (Inl e)
    with Cons.prems r1 show ?thesis by (simp add: draw_index_Cons_Inl)
  next
    case (Inr i)
    with r1 have r1': "randint 0 (int d - 1) w = (Inr i, w1)" by simp
    obtain r2 w2 where r2: "draw_index ds w1 = (r2, w2)" by (cases "draw_index ds w1")
    show ?thesis
    proof (cases r2)
      case (Inl e)
      with Cons.prems draw_index_Cons [OF r1' r2] show ?thesis by simp
    next
      case (Inr js)
      with r2 have "in_range js ds" using Cons.IH by blast
      moreover have "0 \<le> i \<and> i < int d" using r1' randint_zero_based by blast
      moreover have "idx = i # js" using Cons.prems draw_index_Cons [OF r1' r2] Inr by simp
      ultimately show ?thesis by (simp add: in_range_def)
    qed
  qed
qed

lemma draw_index_rng:
  "draw_index ds w = (Inr idx, w') \<Longrightarrow> rng w' = (\<lambda>j. rng w (length ds + j))"
proof (induction ds arbitrary: w idx w')
  case Nil
  then show ?case by (simp add: ret_def)
next
  case (Cons d ds)
  obtain r1 w1 where r1: "randint 0 (int d - 1) w = (r1, w1)" by (cases "randint 0 (int d - 1) w")
  show ?case
  proof (cases r1)
    case (Inl e)
    with Cons.prems r1 show ?thesis by (simp add: draw_index_Cons_Inl)
  next
    case (Inr i)
    with r1 have r1': "randint 0 (int d - 1) w = (Inr i, w1)" by simp
    obtain r2 w2 where r2: "draw_index ds w1 = (r2, w2)" by (cases "draw_index ds w1")
    show ?thesis
    proof (cases r2)
      case (Inl e)
      with Cons.prems draw_index_Cons [OF r1' r2] show ?thesis by simp
    next
      case (Inr js)
      with r2 have "rng w2 = (\<lambda>j. rng w1 (length ds + j))" using Cons.IH by blast
      moreover have "w' = w2" using Cons.prems draw_index_Cons [OF r1' r2] by simp
      ultimately show ?thesis using randint_rng [OF r1'] by simp
    qed
  qed
qed

lemma draw_index_cong:
  "rng w = rng v \<Longrightarrow> fst (draw_index ds w) = fst (draw_index ds v)"
proof (induction ds arbitrary: w v)
  case Nil
  show ?case by (simp add: ret_def)
next
  case (Cons d ds)
  obtain r1 w1 where r1: "randint 0 (int d - 1) w = (r1, w1)" by (cases "randint 0 (int d - 1) w")
  obtain s1 v1 where s1: "randint 0 (int d - 1) v = (s1, v1)" by (cases "randint 0 (int d - 1) v")
  from randint_cong [OF Cons.prems, of 0 "int d - 1"] r1 s1
  have eq: "s1 = r1" "rng w1 = rng v1" by simp_all
  show ?case
  proof (cases r1)
    case (Inl e)
    with r1 s1 eq show ?thesis by (simp add: draw_index_Cons_Inl)
  next
    case (Inr i)
    obtain r2 w2 where r2: "draw_index ds w1 = (r2, w2)" by (cases "draw_index ds w1")
    obtain s2 v2 where s2: "draw_index ds v1 = (s2, v2)" by (cases "draw_index ds v1")
    from Cons.IH [OF eq(2)] r2 s2 have "s2 = r2" by simp
    with Inr r1 s1 eq r2 s2 show ?thesis
      using draw_index_Cons [of d w i w1 ds r2 w2] draw_index_Cons [of d v i v1 ds s2 v2]
      by simp
  qed
qed

lemma draw_index_total:
  "\<forall>d\<in>set ds. 1 \<le> d \<Longrightarrow> \<exists>idx w'. draw_index ds w = (Inr idx, w')"
proof (induction ds arbitrary: w)
  case Nil
  then show ?case by (simp add: ret_def)
next
  case (Cons d ds)
  then have d: "1 \<le> d" by simp
  then obtain i w1 where r1: "randint 0 (int d - 1) w = (Inr i, w1)"
    by (auto simp: randint_def)
  from Cons obtain js w2 where r2: "draw_index ds w1 = (Inr js, w2)" by fastforce
  show ?case using draw_index_Cons [OF r1 r2] by simp
qed

lemma draw_index_zero_extent:
  "0 \<in> set ds \<Longrightarrow> \<exists>w'. draw_index ds w = (Inl ValueError, w')"
proof (induction ds arbitrary: w)
  case Nil
  then show ?case by simp
next
  case (Cons d ds)
  show ?case
  proof (cases "d = 0")
    case True
    then show ?thesis by (simp add: draw_index.simps and_then_def randint_def)
  next
    case False
    then obtain i w1 where r1: "randint 0 (int d - 1) w = (Inr i, w1)"
      by (auto simp: randint_def)
    from False Cons.prems have "0 \<in> set ds" by simp
    from Cons.IH [OF this, of w1] obtain w2 where "draw_index ds w1 = (Inl ValueError, w2)" by blast
    from draw_index_Cons [OF r1 this] show ?thesis by simp
  qed
qed

lemma norm_indices_in_range:
  "in_range idx ds \<Longrightarrow> norm_indices ds idx = Some (map nat idx)"
  unfolding in_range_def
  by (induction idx ds rule: list_all2_induct) (simp_all add: norm_index_def)

lemma getitem_in_range:
  "in_range idx ds \<Longrightarrow> getitem \<lparr>nshape = ds, nelement = e\<rparr> idx = Inr (Scalar (e (map nat idx)))"
  using list_all2_lengthD [of _ idx ds]
  by (simp add: getitem_def norm_indices_in_range in_range_def)

lemma values_of_run:
  "values_of s v w = (Inr \<lparr>nshape = shape v, nelement = element v\<rparr>, after_values s v w)"
  by (simp add: values_of_def)

lemma after_values_frame [simp]:
  "out (after_values s v w) = out w" "rng (after_values s v w) = rng w"
  by (simp_all add: after_values_def)

lemma after_values_cache [simp]: "cache (after_values s v w) = insert s (cache w)"
  by (auto simp: after_values_def)

lemma after_values_out [simp]:
  "after_values s v (w\<lparr>out := ms\<rparr>) = (after_values s v w)\<lparr>out := ms\<rparr>"
  by (simp add: after_values_def)

lemma match_random_value_at:
  "match_random_value a b t = and_then (draw_index (shape a)) (evaluate_at a b t)"
  unfolding match_random_value_def evaluate_at_def ..

text \<open>What the step does at an index where both arrays hold a scalar.\<close>

lemma evaluate_at_scalars:
  assumes "getitem \<lparr>nshape = shape a, nelement = element a\<rparr> idx = Inr (Scalar v1)"
    and "getitem \<lparr>nshape = shape b, nelement = element b\<rparr> idx = Inr (Scalar v2)"
  shows "evaluate_at a b t idx w =
     (if isnan v1 \<or> isnan v2 then (Inr None, after_values SideB b (after_values SideA a w))
      else if fgt (fabs (fsub v2 v1)) t
      then (Inr (Some False),
            (after_values SideB b (after_values SideA a w))
              \<lparr>out := out w @ [Newline, DiffExceeded (Scalar (fsub v2 v1)), VarShape (shape a),
                               Indices idx, ValueA (Scalar v1), ValueB (Scalar v2)]\<rparr>)
      else (Inr (Some True), after_values SideB b (after_values SideA a w)))"
  using assms by (simp add: evaluate_at_def)

lemma shape_const_variable [simp]: "shape (const_variable sh x) = sh"
  by (simp add: const_variable_def)

lemma element_const_variable [simp]: "element (const_variable sh x) = (\<lambda>_. x)"
  by (simp add: const_variable_def)

lemma draw_index_fixed_world:
  "draw_index [3] (fixed_world 2) = (Inr [2], fixed_world 2)"
  by (simp add: draw_index.simps and_then_def randint_def fixed_world_def)

lemma getitem_fixed: "getitem \<lparr>nshape = [3], nelement = e\<rparr> [2] = Inr (Scalar (e [2]))"
  by (simp add: getitem_def norm_index_def)

subsection \<open>Claims about one draw\<close>

lemma match_random_value_drawn:
  assumes "draw_index (shape a) w = (Inr idx, w1)"
  shows "match_random_value a b t w = evaluate_at a b t idx w1"
  by (simp only: match_random_value_at and_then_Inr [where m = "draw_index (shape a)", OF assms])




text \<open>
  Claim C2. When either of the two sampled scalars is NaN, also when only one of them is,
  \<^verbatim>\<open>_match_random_value\<close> returns \<^verbatim>\<open>None\<close>, neither \<^verbatim>\<open>True\<close> nor \<^verbatim>\<open>False\<close>, and
  prints nothing.
\<close>

theorem match_random_value_nan:
  assumes draw: "draw_index (shape a) w = (Inr idx, w1)"
    and v1: "getitem \<lparr>nshape = shape a, nelement = element a\<rparr> idx = Inr (Scalar v1)"
    and v2: "getitem \<lparr>nshape = shape b, nelement = element b\<rparr> idx = Inr (Scalar v2)"
    and nan: "isnan v1 \<or> isnan v2"
  shows "fst (match_random_value a b thresh w) = Inr None
       \<and> printed (match_random_value a b thresh) w = []"
  unfolding match_random_value_drawn [OF draw] printed_def evaluate_at_scalars [OF v1 v2]
  using draw_index_frame [OF draw] nan by simp

theorem match_random_value_nan_witness:
  "draw_index (shape (const_variable [3] NaN)) (fixed_world 2) = (Inr [2], fixed_world 2)
   \<and> (isnan NaN \<or> isnan (Fin 5))
   \<and> fst (match_random_value (const_variable [3] NaN) (const_variable [3] (Fin 5))
             default_thresh (fixed_world 2)) = Inr None
   \<and> fst (match_random_value (const_variable [3] (Fin 5)) (const_variable [3] NaN)
             default_thresh (fixed_world 2)) = Inr None"
proof -
  let ?a = "const_variable [3] NaN" and ?b = "const_variable [3] (Fin 5)"
  have d: "draw_index (shape ?a) (fixed_world 2) = (Inr [2], fixed_world 2)"
    by (simp add: draw_index_fixed_world)
  have d': "draw_index (shape ?b) (fixed_world 2) = (Inr [2], fixed_world 2)"
    by (simp add: draw_index_fixed_world)
  have g1: "getitem \<lparr>nshape = shape ?a, nelement = element ?a\<rparr> [2] = Inr (Scalar NaN)"
    by (simp add: getitem_fixed)
  have g2: "getitem \<lparr>nshape = shape ?b, nelement = element ?b\<rparr> [2] = Inr (Scalar (Fin 5))"
    by (simp add: getitem_fixed)
  have n: "isnan NaN \<or> isnan (Fin 5)" and n': "isnan (Fin 5) \<or> isnan NaN" by simp_all
  from match_random_value_nan [OF d g1 g2 n, of default_thresh]
       match_random_value_nan [OF d' g2 g1 n', of default_thresh] d n
  show ?thesis by simp
qed

text \<open>The result of the step at an index that is in range of the shape of both variables.\<close>

lemma evaluate_at_in_range:
  assumes "in_range idx (shape a)" and "shape b = shape a"
  shows "fst (evaluate_at a b t idx w) =
     Inr (if isnan (element a (map nat idx)) \<or> isnan (element b (map nat idx)) then None
          else Some (\<not> fgt (fabs (fsub (element b (map nat idx)) (element a (map nat idx)))) t))"
proof -
  have g1: "getitem \<lparr>nshape = shape a, nelement = element a\<rparr> idx = Inr (Scalar (element a (map nat idx)))"
    by (rule getitem_in_range [OF assms(1)])
  have g2: "getitem \<lparr>nshape = shape b, nelement = element b\<rparr> idx = Inr (Scalar (element b (map nat idx)))"
    using getitem_in_range [OF assms(1)] assms(2) by simp
  show ?thesis unfolding evaluate_at_scalars [OF g1 g2] by simp
qed

text \<open>
  Claim C9. When every extent of \<open>var_a\<close> is at least 1 and \<open>var_b\<close> has the shape of
  \<open>var_a\<close>, as the sampler requires of its arguments, the draw succeeds, each component of the
  index lies in \<open>[0, extent)\<close> of its axis, indexing both arrays there gives the scalar at
  that position, and \<^verbatim>\<open>_match_random_value\<close> returns the result of comparing these two
  scalars. When an extent of \<open>var_a\<close> is 0 the draw raises \<^verbatim>\<open>ValueError\<close> before \<^verbatim>\<open>.values\<close>
  of either variable is taken.
\<close>

theorem draw_index_in_bounds:
  "((\<forall>d\<in>set (shape a). 1 \<le> d) \<and> shape b = shape a \<longrightarrow>
      (\<exists>idx w'. draw_index (shape a) w = (Inr idx, w')
         \<and> in_range idx (shape a)
         \<and> getitem \<lparr>nshape = shape a, nelement = element a\<rparr> idx = Inr (Scalar (element a (map nat idx)))
         \<and> getitem \<lparr>nshape = shape b, nelement = element b\<rparr> idx = Inr (Scalar (element b (map nat idx)))
         \<and> fst (match_random_value a b thresh w) =
             Inr (if isnan (element a (map nat idx)) \<or> isnan (element b (map nat idx)) then None
                  else Some (\<not> fgt (fabs (fsub (element b (map nat idx)) (element a (map nat idx)))) thresh))))
   \<and> (0 \<in> set (shape a) \<longrightarrow>
        fst (match_random_value a b thresh w) = Inl ValueError
        \<and> logged (match_random_value a b thresh) w = [])"
proof (intro conjI impI)
  assume h: "(\<forall>d\<in>set (shape a). 1 \<le> d) \<and> shape b = shape a"
  then obtain idx w' where d: "draw_index (shape a) w = (Inr idx, w')"
    using draw_index_total by blast
  note r = draw_index_in_range [OF d]
  have g1: "getitem \<lparr>nshape = shape a, nelement = element a\<rparr> idx = Inr (Scalar (element a (map nat idx)))"
    by (rule getitem_in_range [OF r])
  have g2: "getitem \<lparr>nshape = shape b, nelement = element b\<rparr> idx = Inr (Scalar (element b (map nat idx)))"
    using getitem_in_range [OF r] h by simp
  have m: "fst (match_random_value a b thresh w) =
             Inr (if isnan (element a (map nat idx)) \<or> isnan (element b (map nat idx)) then None
                  else Some (\<not> fgt (fabs (fsub (element b (map nat idx)) (element a (map nat idx)))) thresh))"
    unfolding match_random_value_drawn [OF d] using h by (intro evaluate_at_in_range [OF r]) simp
  show "\<exists>idx w'. draw_index (shape a) w = (Inr idx, w')
         \<and> in_range idx (shape a)
         \<and> getitem \<lparr>nshape = shape a, nelement = element a\<rparr> idx = Inr (Scalar (element a (map nat idx)))
         \<and> getitem \<lparr>nshape = shape b, nelement = element b\<rparr> idx = Inr (Scalar (element b (map nat idx)))
         \<and> fst (match_random_value a b thresh w) =
             Inr (if isnan (element a (map nat idx)) \<or> isnan (element b (map nat idx)) then None
                  else Some (\<not> fgt (fabs (fsub (element b (map nat idx)) (element a (map nat idx)))) thresh))"
    using d r g1 g2 m by blast
next
  assume "0 \<in> set (shape a)"
  then obtain w' where d: "draw_index (shape a) w = (Inl ValueError, w')"
    using draw_index_zero_extent by blast
  then have m: "match_random_value a b thresh w = (Inl ValueError, w')"
    by (simp only: match_random_value_at and_then_Inl [where m = "draw_index (shape a)", OF d])
  then show "fst (match_random_value a b thresh w) = Inl ValueError" by simp
  show "logged (match_random_value a b thresh) w = []"
    using m draw_index_frame [OF d] by (simp add: logged_def)
qed

theorem draw_index_in_bounds_witness:
  "shape (const_variable [3] (Fin 1)) = [3]
   \<and> (\<exists>idx w'. draw_index (shape (const_variable [3] (Fin 1))) (fixed_world 2) = (Inr idx, w')
         \<and> in_range idx [3]
         \<and> fst (match_random_value (const_variable [3] (Fin 1)) (const_variable [3] (Fin 1))
                  default_thresh (fixed_world 2)) = Inr (Some True))
   \<and> 0 \<in> set (shape (const_variable [3, 0] (Fin 1)))
   \<and> fst (match_random_value (const_variable [3, 0] (Fin 1)) (const_variable [3, 0] (Fin 1))
             default_thresh (fixed_world 2)) = Inl ValueError"
proof -
  have h1: "(\<forall>d\<in>set (shape (const_variable [3] (Fin 1))). 1 \<le> d)
            \<and> shape (const_variable [3] (Fin 1)) = shape (const_variable [3] (Fin 1))"
    by simp
  have h2: "0 \<in> set (shape (const_variable [3, 0] (Fin 1)))"
    by simp
  from draw_index_in_bounds [of "const_variable [3] (Fin 1)" "const_variable [3] (Fin 1)"
         "fixed_world 2" default_thresh] h1
  obtain idx w' where
    "draw_index (shape (const_variable [3] (Fin 1))) (fixed_world 2) = (Inr idx, w')"
    "in_range idx (shape (const_variable [3] (Fin 1)))"
    "fst (match_random_value (const_variable [3] (Fin 1)) (const_variable [3] (Fin 1))
            default_thresh (fixed_world 2)) = Inr (Some True)"
    by (auto simp: default_thresh_def)
  moreover from draw_index_in_bounds [of "const_variable [3, 0] (Fin 1)" "const_variable [3, 0] (Fin 1)"
         "fixed_world 2" default_thresh] h2
  have "fst (match_random_value (const_variable [3, 0] (Fin 1)) (const_variable [3, 0] (Fin 1))
             default_thresh (fixed_world 2)) = Inl ValueError"
    by blast
  ultimately show ?thesis by auto
qed

subsection \<open>The sampling loop\<close>

lemma produces_match_random_value:
  assumes "\<And>m. is_diff_report m \<Longrightarrow> P m" and "\<And>s k. Q (Materialise s k)"
  shows "produces P Q (match_random_value a b t)"
  unfolding match_random_value_def
  by (intro produces_intros assms) simp_all

lemma match_random_value_out:
  assumes "match_random_value a b t w = (r, w')"
  shows "\<exists>ms. out w' = out w @ ms \<and> list_all is_diff_report ms"
proof -
  have "produces is_diff_report (\<lambda>_. True) (match_random_value a b t)"
    by (rule produces_match_random_value) simp_all
  from produces_out [OF this, of w] assms show ?thesis by auto
qed

lemma filter_diff_report:
  "list_all is_diff_report ms \<Longrightarrow> filter is_marker ms = [] \<and> filter (\<lambda>m. m = Marker c) ms = []"
  by (induction ms) (auto elim: is_diff_report.elims)

lemma elements_read_append:
  "elements_read s (xs @ ys) = elements_read s xs + elements_read s ys"
  by (induction s xs rule: elements_read.induct) simp_all

lemma reads_once_refl [simp]: "reads_once ka kb w w"
  by (simp add: reads_once_def)

lemma reads_once_trans:
  assumes "reads_once ka kb w w1" and "reads_once ka kb w1 w2"
  shows "reads_once ka kb w w2"
proof -
  from assms(1) obtain cs where 1: "cache w \<subseteq> cache w1" "calls w1 = calls w @ cs"
    "elements_read SideA cs = (if SideA \<in> cache w1 - cache w then ka else 0)"
    "elements_read SideB cs = (if SideB \<in> cache w1 - cache w then kb else 0)"
    unfolding reads_once_def by blast
  from assms(2) obtain ds where 2: "cache w1 \<subseteq> cache w2" "calls w2 = calls w1 @ ds"
    "elements_read SideA ds = (if SideA \<in> cache w2 - cache w1 then ka else 0)"
    "elements_read SideB ds = (if SideB \<in> cache w2 - cache w1 then kb else 0)"
    unfolding reads_once_def by blast
  have "calls w2 = calls w @ (cs @ ds)" using 1(2) 2(2) by simp
  moreover have "elements_read SideA (cs @ ds) = (if SideA \<in> cache w2 - cache w then ka else 0)"
    using 1(1,3) 2(1,3) by (auto simp: elements_read_append)
  moreover have "elements_read SideB (cs @ ds) = (if SideB \<in> cache w2 - cache w then kb else 0)"
    using 1(1,4) 2(1,4) by (auto simp: elements_read_append)
  moreover have "cache w \<subseteq> cache w2" using 1(1) 2(1) by blast
  ultimately show ?thesis unfolding reads_once_def by blast
qed

lemma reads_once_frame:
  "calls v = calls w \<Longrightarrow> cache v = cache w \<Longrightarrow> reads_once ka kb v w' = reads_once ka kb w w'"
  "calls v' = calls w' \<Longrightarrow> cache v' = cache w' \<Longrightarrow> reads_once ka kb w v' = reads_once ka kb w w'"
  by (simp_all add: reads_once_def)

lemma reads_once_out [simp]:
  "reads_once ka kb w (w'\<lparr>out := ms\<rparr>) = reads_once ka kb w w'"
  "reads_once ka kb (w\<lparr>out := ms\<rparr>) w' = reads_once ka kb w w'"
  by (simp_all add: reads_once_def)

lemma reads_once_after_values:
  "reads_once (prod_list (shape a)) kb w (after_values SideA a w)"
  "reads_once ka (prod_list (shape b)) w (after_values SideB b w)"
  by (auto simp: reads_once_def after_values_def)

lemma reads_once_after_both:
  "reads_once (prod_list (shape a)) (prod_list (shape b)) w
     (after_values SideB b (after_values SideA a w))"
  by (rule reads_once_trans [OF reads_once_after_values(1) reads_once_after_values(2)])

text \<open>
  From every world the step at a given index either fails on the first array, having
  taken its values, or takes the values of both arrays and then only prints; its result
  and what it prints do not depend on the world.
\<close>

lemma evaluate_at_cases:
  "(\<exists>e. \<forall>w. evaluate_at a b t idx w = (Inl e, after_values SideA a w))
   \<or> (\<exists>r ms. list_all is_diff_report ms
        \<and> (\<forall>w. evaluate_at a b t idx w =
                 (r, after_values SideB b (after_values SideA a (w\<lparr>out := out w @ ms\<rparr>)))))"
proof -
  have fin: "list_all is_diff_report ms \<Longrightarrow>
      (\<And>w. evaluate_at a b t idx w =
                 (r, after_values SideB b (after_values SideA a (w\<lparr>out := out w @ ms\<rparr>)))) \<Longrightarrow>
      ?thesis" for r ms
    by blast
  show ?thesis
  proof (cases "getitem \<lparr>nshape = shape a, nelement = element a\<rparr> idx")
    case (Inl e)
    then show ?thesis by (simp add: evaluate_at_def)
  next
    case g1: (Inr v1)
    show ?thesis
    proof (cases "getitem \<lparr>nshape = shape b, nelement = element b\<rparr> idx")
      case (Inl e)
      show ?thesis by (rule fin [of "[]" "Inl e"]) (simp_all add: evaluate_at_def g1 Inl)
    next
      case g2: (Inr v2)
      show ?thesis
      proof (cases "truth (map_item isnan v1)")
        case (Inl e)
        show ?thesis by (rule fin [of "[]" "Inl e"]) (simp_all add: evaluate_at_def g1 g2 Inl)
      next
        case n1: (Inr nan1)
        show ?thesis
        proof (cases nan1)
          case True
          show ?thesis
            by (rule fin [of "[]" "Inr None"]) (simp_all add: evaluate_at_def g1 g2 n1 True)
        next
          case False
          show ?thesis
          proof (cases "truth (map_item isnan v2)")
            case (Inl e)
            show ?thesis
              by (rule fin [of "[]" "Inl e"]) (simp_all add: evaluate_at_def g1 g2 n1 False Inl)
          next
            case n2: (Inr nan2)
            show ?thesis
            proof (cases nan2)
              case True
              show ?thesis
                by (rule fin [of "[]" "Inr None"])
                   (simp_all add: evaluate_at_def g1 g2 n1 False n2 True)
            next
              case nn: False
              show ?thesis
              proof (cases "truth (map_item (\<lambda>d. fgt (fabs d) t) (item_sub v2 v1))")
                case (Inl e)
                show ?thesis
                  by (rule fin [of "[]" "Inl e"])
                     (simp_all add: evaluate_at_def g1 g2 n1 False n2 nn Inl)
              next
                case (Inr exceeded)
                show ?thesis
                proof (cases exceeded)
                  case True
                  show ?thesis
                    by (rule fin [of "[Newline, DiffExceeded (item_sub v2 v1), VarShape (shape a),
                                       Indices idx, ValueA v1, ValueB v2]" "Inr (Some False)"])
                       (simp_all add: evaluate_at_def g1 g2 n1 False n2 nn Inr True)
                next
                  case ne: False
                  show ?thesis
                    by (rule fin [of "[]" "Inr (Some True)"])
                       (simp_all add: evaluate_at_def g1 g2 n1 False n2 nn Inr ne)
                qed
              qed
            qed
          qed
        qed
      qed
    qed
  qed
qed

lemma evaluate_at_cong: "fst (evaluate_at a b t idx w) = fst (evaluate_at a b t idx v)"
  using evaluate_at_cases [of a b t idx] by (elim disjE exE conjE) simp_all

lemma evaluate_at_rng: "rng (snd (evaluate_at a b t idx w)) = rng w"
  using evaluate_at_cases [of a b t idx] by (elim disjE exE conjE) simp_all

lemma evaluate_at_reads:
  "reads_once (prod_list (shape a)) (prod_list (shape b)) w (snd (evaluate_at a b t idx w))"
  using evaluate_at_cases [of a b t idx]
  by (elim disjE exE conjE) (simp_all add: reads_once_after_values reads_once_after_both)

lemma evaluate_at_cache:
  "fst (evaluate_at a b t idx w) = Inr r \<Longrightarrow>
   SideA \<in> cache (snd (evaluate_at a b t idx w)) \<and> SideB \<in> cache (snd (evaluate_at a b t idx w))"
  using evaluate_at_cases [of a b t idx] by (elim disjE exE conjE) simp_all

lemma match_random_value_cong:
  assumes "rng v = rng w"
  shows "fst (match_random_value a b t v) = fst (match_random_value a b t w)"
proof -
  obtain r0 w0 where dw: "draw_index (shape a) w = (r0, w0)" by (cases "draw_index (shape a) w")
  obtain s0 v0 where dv: "draw_index (shape a) v = (s0, v0)" by (cases "draw_index (shape a) v")
  from draw_index_cong [OF assms, of "shape a"] dw dv have s: "s0 = r0" by simp
  show ?thesis
  proof (cases r0)
    case (Inl e)
    with dw dv s show ?thesis
      by (simp add: match_random_value_at and_then_Inl [where m = "draw_index (shape a)"])
  next
    case (Inr idx)
    with dw dv s show ?thesis
      by (simp add: match_random_value_drawn evaluate_at_cong [of a b t idx w0 v0])
  qed
qed

lemma match_random_value_reads:
  "reads_once (prod_list (shape a)) (prod_list (shape b)) w (snd (match_random_value a b t w))"
proof -
  obtain r0 w0 where d: "draw_index (shape a) w = (r0, w0)" by (cases "draw_index (shape a) w")
  note f = draw_index_frame [OF d]
  show ?thesis
  proof (cases r0)
    case (Inl e)
    with d f show ?thesis
      by (simp add: match_random_value_at and_then_Inl [where m = "draw_index (shape a)"]
            reads_once_frame(2) [of w0 w])
  next
    case (Inr idx)
    with d have d': "draw_index (shape a) w = (Inr idx, w0)" by simp
    have "reads_once (prod_list (shape a)) (prod_list (shape b)) w0 (snd (evaluate_at a b t idx w0))"
      by (rule evaluate_at_reads)
    with f show ?thesis
      by (simp add: match_random_value_drawn [OF d'] reads_once_frame(1) [of w0 w])
  qed
qed

lemma match_random_value_step:
  assumes "match_random_value a b t w = (Inr mr, w')"
  shows "rng w' = (\<lambda>j. rng w (length (shape a) + j))"
    and "SideA \<in> cache w'" and "SideB \<in> cache w'"
proof -
  obtain r0 w0 where d: "draw_index (shape a) w = (r0, w0)" by (cases "draw_index (shape a) w")
  have "\<exists>idx. r0 = Inr idx"
  proof (cases r0)
    case (Inl e)
    with d assms show ?thesis
      by (simp add: match_random_value_at and_then_Inl [where m = "draw_index (shape a)"])
  qed simp
  then obtain idx where d': "draw_index (shape a) w = (Inr idx, w0)" using d by blast
  from assms have e: "evaluate_at a b t idx w0 = (Inr mr, w')"
    by (simp add: match_random_value_drawn [OF d'])
  from evaluate_at_rng [of a b t idx w0] e draw_index_rng [OF d']
  show "rng w' = (\<lambda>j. rng w (length (shape a) + j))" by simp
  from evaluate_at_cache [of a b t idx w0 mr] e
  show "SideA \<in> cache w'" and "SideB \<in> cache w'" by simp_all
qed

lemma nth_draw_zero:
  "nth_draw a b t (rng w) 0 = fst (match_random_value a b t w)"
  unfolding nth_draw_def by (rule match_random_value_cong) simp

lemma nth_draw_Suc:
  "nth_draw a b t (\<lambda>j. g (length (shape a) + j)) i = nth_draw a b t g (Suc i)"
  by (simp add: nth_draw_def add.assoc)

lemma map_upt_Suc': "map f [0..<Suc k] = f 0 # map (\<lambda>i. f (Suc i)) [0..<k]"
  by (simp only: upt_conv_Cons [of 0 "Suc k"] zero_less_Suc list.map map_Suc_upt [symmetric] map_map o_def)

lemma marker_of_cases:
  "(case mr of None \<Rightarrow> ''n'' | Some True \<Rightarrow> ''.'' | Some False \<Rightarrow> ''x'') = marker_of mr"
  by (cases mr rule: marker_of.cases) simp_all

text \<open>One round of the loop after a step that has returned.\<close>

lemma sample_loop_Suc:
  assumes "match_random_value a b default_thresh w = (Inr mr, w0)"
  shows "sample_loop (Suc k) a b acc w =
     sample_loop k a b (if mr = Some False then acc + 1 else acc)
       (w0\<lparr>out := out w0 @ [Marker (marker_of mr)]\<rparr>)"
  by (cases mr rule: marker_of.cases)
     (simp_all add: and_then_Inr [where m = "match_random_value a b default_thresh", OF assms])

lemma sample_loop_Suc_Inl:
  assumes "match_random_value a b default_thresh w = (Inl e, w0)"
  shows "sample_loop (Suc k) a b acc w = (Inl e, w0)"
  by (simp add: and_then_Inl [where m = "match_random_value a b default_thresh", OF assms])

declare sample_loop.simps(2) [simp del]

lemma sample_loop_run:
  "sample_loop k a b acc w = (Inr r, w') \<Longrightarrow>
     \<exists>ms outcomes. out w' = out w @ ms
        \<and> map (nth_draw a b default_thresh (rng w)) [0..<k] = map Inr outcomes
        \<and> filter is_marker ms = map (\<lambda>mr. Marker (marker_of mr)) outcomes
        \<and> list_all (\<lambda>m. is_marker m \<or> is_diff_report m) ms
        \<and> r = acc + length (filter (\<lambda>mr. mr = Some False) outcomes)
        \<and> (0 < k \<longrightarrow> SideA \<in> cache w' \<and> SideB \<in> cache w')"
proof (induction k arbitrary: acc w)
  case 0
  then show ?case by simp
next
  case (Suc k)
  obtain r0 w0 where m: "match_random_value a b default_thresh w = (r0, w0)"
    by (cases "match_random_value a b default_thresh w")
  show ?case
  proof (cases r0)
    case (Inl e)
    with Suc.prems m show ?thesis by (simp add: sample_loop_Suc_Inl)
  next
    case (Inr mr)
    with m have m': "match_random_value a b default_thresh w = (Inr mr, w0)" by simp
    from match_random_value_out [OF m'] obtain ms0 where
      o0: "out w0 = out w @ ms0" and d0: "list_all is_diff_report ms0" by blast
    note s0 = match_random_value_step [OF m']
    note f0 = filter_diff_report [OF d0]
    define acc' where "acc' = (if mr = Some False then acc + 1 else acc)"
    define w1 where "w1 = w0\<lparr>out := out w0 @ [Marker (marker_of mr)]\<rparr>"
    from Suc.prems have "sample_loop k a b acc' w1 = (Inr r, w')"
      by (simp add: sample_loop_Suc [OF m'] acc'_def w1_def)
    from Suc.IH [OF this] obtain ms outcomes where
      1: "out w' = out w1 @ ms"
      and 2: "map (nth_draw a b default_thresh (rng w1)) [0..<k] = map Inr outcomes"
      and 3: "filter is_marker ms = map (\<lambda>mr. Marker (marker_of mr)) outcomes"
      and 4: "list_all (\<lambda>m. is_marker m \<or> is_diff_report m) ms"
      and 5: "r = acc' + length (filter (\<lambda>mr. mr = Some False) outcomes)"
      and 6: "0 < k \<longrightarrow> SideA \<in> cache w' \<and> SideB \<in> cache w'"
      by blast
    have c1: "SideA \<in> cache w1 \<and> SideB \<in> cache w1" using s0(2,3) by (simp add: w1_def)
    have k0: "k = 0 \<Longrightarrow> w' = w1"
      using \<open>sample_loop k a b acc' w1 = (Inr r, w')\<close> by simp
    have rw1: "rng w1 = (\<lambda>j. rng w (length (shape a) + j))" using s0(1) by (simp add: w1_def)
    have d0': "list_all (\<lambda>m. is_marker m \<or> is_diff_report m) ms0"
      using d0 by (rule list.pred_mono_strong) simp
    show ?thesis
    proof (intro exI conjI)
      show "out w' = out w @ (ms0 @ Marker (marker_of mr) # ms)" using 1 o0 by (simp add: w1_def)
      show "map (nth_draw a b default_thresh (rng w)) [0..<Suc k] = map Inr (mr # outcomes)"
        using 2 m' unfolding map_upt_Suc' rw1 nth_draw_Suc by (simp add: nth_draw_zero)
      show "filter is_marker (ms0 @ Marker (marker_of mr) # ms) =
              map (\<lambda>mr. Marker (marker_of mr)) (mr # outcomes)"
        using 3 f0 by simp
      show "list_all (\<lambda>m. is_marker m \<or> is_diff_report m) (ms0 @ Marker (marker_of mr) # ms)"
        using 4 d0' by simp
      show "r = acc + length (filter (\<lambda>mr. mr = Some False) (mr # outcomes))"
        using 5 by (simp add: acc'_def)
      show "0 < Suc k \<longrightarrow> SideA \<in> cache w' \<and> SideB \<in> cache w'"
        using 6 c1 k0 by (cases k) simp_all
    qed
  qed
qed

lemma sample_loop_reads:
  "reads_once (prod_list (shape a)) (prod_list (shape b)) w (snd (sample_loop k a b acc w))"
proof (induction k arbitrary: acc w)
  case 0
  show ?case by simp
next
  case (Suc k)
  obtain r0 w0 where m: "match_random_value a b default_thresh w = (r0, w0)"
    by (cases "match_random_value a b default_thresh w")
  from match_random_value_reads [of a b w default_thresh] m
  have r: "reads_once (prod_list (shape a)) (prod_list (shape b)) w w0" by simp
  show ?case
  proof (cases r0)
    case (Inl e)
    with m r show ?thesis by (simp add: sample_loop_Suc_Inl)
  next
    case (Inr mr)
    with m have m': "match_random_value a b default_thresh w = (Inr mr, w0)" by simp
    let ?w1 = "w0\<lparr>out := out w0 @ [Marker (marker_of mr)]\<rparr>"
    have "reads_once (prod_list (shape a)) (prod_list (shape b)) w ?w1" using r by simp
    from reads_once_trans [OF this Suc.IH]
    show ?thesis by (simp add: sample_loop_Suc [OF m'])
  qed
qed

lemma fgt_self_difference: "\<not> fgt (fabs (fsub x x)) default_thresh"
  by (cases x) (simp_all add: default_thresh_def)

lemma match_random_value_identical:
  assumes same: "shape b = shape a" "element b = element a"
    and run: "match_random_value a b default_thresh w = (r, w')"
  shows "r \<noteq> Inr (Some False) \<and> out w' = out w"
proof -
  obtain r0 w0 where d: "draw_index (shape a) w = (r0, w0)" by (cases "draw_index (shape a) w")
  note fr = draw_index_frame [OF d]
  show ?thesis
  proof (cases r0)
    case (Inl e)
    with run d fr show ?thesis
      by (auto simp: match_random_value_at and_then_Inl [where m = "draw_index (shape a)"])
  next
    case (Inr idx)
    with d have d': "draw_index (shape a) w = (Inr idx, w0)" by simp
    note g = getitem_in_range [OF draw_index_in_range [OF d']]
    have g2: "getitem \<lparr>nshape = shape b, nelement = element b\<rparr> idx =
        Inr (Scalar (element a (map nat idx)))"
      using g [of "element a"] same by simp
    show ?thesis using run fr fgt_self_difference
      unfolding match_random_value_drawn [OF d'] evaluate_at_scalars [OF g g2]
      by (auto split: if_splits)
  qed
qed

lemma sample_loop_identical:
  assumes same: "shape b = shape a" "element b = element a"
  shows "\<exists>ms. out (snd (sample_loop k a b acc w)) = out w @ ms
           \<and> list_all (\<lambda>m. m = Marker ''.'' \<or> m = Marker ''n'') ms
           \<and> (\<forall>r. fst (sample_loop k a b acc w) = Inr r \<longrightarrow> r = acc)"
proof (induction k arbitrary: w)
  case 0
  then show ?case by simp
next
  case (Suc k)
  obtain r0 w0 where m: "match_random_value a b default_thresh w = (r0, w0)"
    by (cases "match_random_value a b default_thresh w")
  note i = match_random_value_identical [OF same m]
  show ?case
  proof (cases r0)
    case (Inl e)
    with m i show ?thesis by (simp add: sample_loop_Suc_Inl)
  next
    case (Inr mr)
    with m have m': "match_random_value a b default_thresh w = (Inr mr, w0)" by simp
    define c where "c = marker_of mr"
    have ms: "mr \<noteq> Some False" using i Inr by simp
    then have c: "Marker c = Marker ''.'' \<or> Marker c = Marker ''n''"
      unfolding c_def by (cases mr rule: marker_of.cases) simp_all
    have step: "sample_loop (Suc k) a b acc w = sample_loop k a b acc (w0\<lparr>out := out w0 @ [Marker c]\<rparr>)"
      using ms by (simp add: sample_loop_Suc [OF m'] c_def)
    from Suc.IH [of "w0\<lparr>out := out w0 @ [Marker c]\<rparr>"] obtain ms where
      1: "out (snd (sample_loop k a b acc (w0\<lparr>out := out w0 @ [Marker c]\<rparr>))) = (out w0 @ [Marker c]) @ ms"
      and 2: "list_all (\<lambda>m. m = Marker ''.'' \<or> m = Marker ''n'') ms"
      and 3: "\<forall>r. fst (sample_loop k a b acc (w0\<lparr>out := out w0 @ [Marker c]\<rparr>)) = Inr r \<longrightarrow> r = acc"
      by auto
    show ?thesis
    proof (intro exI conjI)
      show "out (snd (sample_loop (Suc k) a b acc w)) = out w @ (Marker c # ms)"
        using step 1 i by simp
      show "list_all (\<lambda>m. m = Marker ''.'' \<or> m = Marker ''n'') (Marker c # ms)"
        using 2 c by simp
      show "\<forall>r. fst (sample_loop (Suc k) a b acc w) = Inr r \<longrightarrow> r = acc"
        using step 3 by simp
    qed
  qed
qed

lemma open_dataset_two_files:
  "open_dataset (two_files (one_group_file va) (one_group_file vb)) ''a.nc'' ''g'' =
     Inr (Group [(''v'', va)] (dimension_lookup [(''x'', 3)]) [])"
  "open_dataset (two_files (one_group_file va) (one_group_file vb)) ''b.nc'' ''g'' =
     Inr (Group [(''v'', vb)] (dimension_lookup [(''x'', 3)]) [])"
  by (simp_all add: open_dataset_def open_file_def two_files_def one_group_file_def
        strip_slashes_def)

lemma open_variable_two_files:
  "open_variable (two_files (one_group_file va) (one_group_file vb)) ''a.nc'' ''g'' ''v'' = Inr va"
  "open_variable (two_files (one_group_file va) (one_group_file vb)) ''b.nc'' ''g'' ''v'' = Inr vb"
  by (simp_all add: open_variable_def open_dataset_two_files)

lemma and_then_open_data_array:
  "open_variable fs p g v = Inr x \<Longrightarrow>
   and_then (open_data_array s fs p g v) f w = f x (w\<lparr>cache := cache w - {s}\<rparr>)"
  "open_variable fs p g v = Inl e \<Longrightarrow>
   and_then (open_data_array s fs p g v) f w = (Inl e, w)"
  by (simp_all add: and_then_def open_data_array_def)

lemma match_random_value_fixed:
  "match_random_value (const_variable [3] x) (const_variable [3] y) t (fixed_world 2) =
     (if isnan x \<or> isnan y
      then (Inr None, \<lparr>rng = (\<lambda>_. 2), out = [],
              calls = [Materialise SideA 3, Materialise SideB 3], cache = {SideB, SideA}\<rparr>)
      else if fgt (fabs (fsub y x)) t
      then (Inr (Some False), \<lparr>rng = (\<lambda>_. 2),
              out = [Newline, DiffExceeded (Scalar (fsub y x)), VarShape [3], Indices [2],
                     ValueA (Scalar x), ValueB (Scalar y)],
              calls = [Materialise SideA 3, Materialise SideB 3], cache = {SideB, SideA}\<rparr>)
      else (Inr (Some True), \<lparr>rng = (\<lambda>_. 2), out = [],
              calls = [Materialise SideA 3, Materialise SideB 3], cache = {SideB, SideA}\<rparr>))"
proof -
  have d: "draw_index (shape (const_variable [3] x)) (fixed_world 2) = (Inr [2], fixed_world 2)"
    by (simp add: draw_index_fixed_world)
  have g1: "getitem \<lparr>nshape = shape (const_variable [3] x), nelement = element (const_variable [3] x)\<rparr> [2]
      = Inr (Scalar x)"
    by (simp add: getitem_fixed)
  have g2: "getitem \<lparr>nshape = shape (const_variable [3] y), nelement = element (const_variable [3] y)\<rparr> [2]
      = Inr (Scalar y)"
    by (simp add: getitem_fixed)
  show ?thesis
    unfolding match_random_value_drawn [OF d] evaluate_at_scalars [OF g1 g2]
    by (simp add: after_values_def fixed_world_def)
qed

lemma cmrv_open:
  assumes oa: "open_variable fs nc_a g v = Inr va" and ob: "open_variable fs nc_b g v = Inr vb"
  shows "compare_multiple_random_values fs nc_a nc_b g v n w =
     and_then (sample_loop (nat n) va vb 0) (\<lambda>num_mismatches.
     and_then (if num_mismatches > 0 then emit (MismatchSummary num_mismatches n)
               else emit NoMismatches) (\<lambda>_.
     emit SamplerDone)) (w\<lparr>cache := cache w - {SideA} - {SideB}\<rparr>)"
  by (simp add: compare_multiple_random_values_def and_then_open_data_array(1) [OF oa]
        and_then_open_data_array(1) [OF ob])


text \<open>The run of the sampler in terms of the run of its loop.\<close>

lemma cmrv_run:
  assumes oa: "open_variable fs nc_a g v = Inr va" and ob: "open_variable fs nc_b g v = Inr vb"
    and l: "sample_loop (nat n) va vb 0 (w\<lparr>cache := cache w - {SideA} - {SideB}\<rparr>) = (r0, w0)"
  shows "compare_multiple_random_values fs nc_a nc_b g v n w =
     (case r0 of
        Inl e \<Rightarrow> (Inl e, w0)
      | Inr k \<Rightarrow> (Inr (), w0\<lparr>out := out w0 @ [if 0 < k then MismatchSummary k n else NoMismatches,
                                               SamplerDone]\<rparr>))"
proof (cases r0)
  case (Inl e)
  with l show ?thesis
    by (simp add: cmrv_open [OF oa ob] and_then_Inl [where m = "sample_loop (nat n) va vb 0"])
next
  case (Inr k)
  with l show ?thesis
    by (simp add: cmrv_open [OF oa ob] and_then_Inr [where m = "sample_loop (nat n) va vb 0"])
qed

lemma sample_loop_one:
  assumes "match_random_value a b default_thresh w = (Inr mr, w0)"
  shows "sample_loop (Suc 0) a b 0 w =
     (Inr (if mr = Some False then 1 else 0), w0\<lparr>out := out w0 @ [Marker (marker_of mr)]\<rparr>)"
  unfolding sample_loop_Suc [OF assms] by simp

lemma sample_loop_one_match:
  "sample_loop (Suc 0) (const_variable [3] (Fin 1)) (const_variable [3] (Fin 1)) 0 (fixed_world 2) =
   (Inr 0, \<lparr>rng = (\<lambda>_. 2), out = [Marker ''.''],
           calls = [Materialise SideA 3, Materialise SideB 3], cache = {SideB, SideA}\<rparr>)"
  by (subst sample_loop_one [where mr = "Some True"])
     (simp add: match_random_value_fixed default_thresh_def, simp)


lemma fixed_world_cache: "(fixed_world r)\<lparr>cache := cache (fixed_world r) - {SideA} - {SideB}\<rparr> = fixed_world r"
  by (simp add: fixed_world_def)

lemma sample_one_match:
  "compare_multiple_random_values
     (two_files (one_group_file (const_variable [3] (Fin 1))) (one_group_file (const_variable [3] (Fin 1))))
     ''a.nc'' ''b.nc'' ''g'' ''v'' 1 (fixed_world 2) =
   (Inr (), \<lparr>rng = (\<lambda>_. 2), out = [Marker ''.'', NoMismatches, SamplerDone],
            calls = [Materialise SideA 3, Materialise SideB 3], cache = {SideB, SideA}\<rparr>)"
proof -
  have "sample_loop (nat 1) (const_variable [3] (Fin 1)) (const_variable [3] (Fin 1)) 0
          ((fixed_world 2)\<lparr>cache := cache (fixed_world 2) - {SideA} - {SideB}\<rparr>) =
   (Inr 0, \<lparr>rng = (\<lambda>_. 2), out = [Marker ''.''],
           calls = [Materialise SideA 3, Materialise SideB 3], cache = {SideB, SideA}\<rparr>)"
    unfolding fixed_world_cache by (simp add: sample_loop_one_match)
  from cmrv_run [OF open_variable_two_files this] show ?thesis by simp
qed


subsection \<open>The stages of a run\<close>

lemma diff_report_inspection: "is_diff_report m \<Longrightarrow> inspection_message m"
  by (cases m) simp_all

lemma produces_lift_bind:
  "(\<And>x. r = Inr x \<Longrightarrow> produces P Q (f x)) \<Longrightarrow> produces P Q (and_then (lift r) f)"
  by (cases r) (simp_all add: produces_throw)

lemma produces_case_prod [produces_intros]:
  "(\<And>a b. produces P Q (f a b)) \<Longrightarrow> produces P Q (case_prod f x)"
  by (cases x) simp

lemma produces_print_var_properties_side_by_side:
  assumes "\<And>m. is_table_row m \<Longrightarrow> P m"
  shows "produces P Q (print_var_properties_side_by_side v_a v_b nc_a nc_b g_a g_b show_chunks)"
  unfolding print_var_properties_side_by_side_def
  by (intro produces_intros assms) simp_all

lemma produces_variable_rows:
  assumes "\<And>m. is_table_row m \<Longrightarrow> P m"
  shows "produces P Q (variable_rows nc_a nc_b g_a g_b show_chunks rows)"
proof (induction rows)
  case Nil
  show ?case unfolding variable_rows.simps by (rule produces_ret)
next
  case (Cons row rows)
  obtain i a b where row: "row = (i, a, b)" by (cases row)
  show ?case unfolding row variable_rows.simps
    by (intro produces_and_then produces_print_var_properties_side_by_side assms Cons.IH)
qed

lemma sorted_group_variables_sorted:
  "sorted_group_variables nc g = Inr xs \<Longrightarrow> sorted xs"
  by (auto simp: sorted_group_variables_def split: if_splits option.splits)

lemma produces_group_rows:
  assumes P: "\<And>m. is_table_row m \<Longrightarrow> P m" and Q: "\<And>e. sorted_listing e \<Longrightarrow> Q e"
  shows "produces P Q (group_rows ce nc_a nc_b show_chunks rows)"
proof (induction rows)
  case Nil
  show ?case unfolding group_rows.simps by (rule produces_ret)
next
  case (Cons row rows)
  obtain i a b where row: "row = (i, a, b)" by (cases row)
  show ?case unfolding row group_rows.simps
    by (intro produces_and_then produces_lift_bind produces_emit produces_record_call
          produces_variable_rows P Q Cons.IH)
       (simp_all add: sorted_group_variables_sorted)
qed

lemma produces_compare_two_nc_files:
  assumes P: "\<And>m. is_table_row m \<Longrightarrow> P m" and Q: "\<And>e. sorted_listing e \<Longrightarrow> Q e"
  shows "produces P Q (compare_two_nc_files ce fs nc_one nc_two show_chunks)"
  unfolding compare_two_nc_files_def
  by (intro produces_and_then produces_lift produces_emit produces_record_call
        produces_variable_rows produces_group_rows P Q)
     simp_all

lemma produces_get_dims: "produces P Q (get_dims fs p False)"
  unfolding get_dims_def by (intro produces_intros) simp_all

lemma produces_get_groups: "produces P Q (get_groups fs p False)"
  unfolding get_groups_def by (intro produces_intros) simp_all

lemma produces_print_vars:
  assumes "\<And>m. group_listing_message m \<Longrightarrow> P m"
  shows "produces P Q (print_vars fs p g)"
proof (cases "open_group fs p g")
  case (Inl e)
  then show ?thesis unfolding print_vars_def
    by (cases e) (auto intro!: produces_and_then produces_emit produces_throw assms)
next
  case (Inr grp)
  then show ?thesis unfolding print_vars_def
    by (auto intro!: produces_and_then produces_emit produces_ret assms)
qed

lemma produces_sample_loop:
  assumes P: "\<And>m. inspection_message m \<Longrightarrow> P m" and Q: "\<And>s k. Q (Materialise s k)"
  shows "produces P Q (sample_loop k a b acc)"
proof (induction k arbitrary: acc)
  case 0
  show ?case unfolding sample_loop.simps by (rule produces_ret)
next
  case (Suc k)
  have m: "produces P Q (match_random_value a b default_thresh)"
    by (rule produces_match_random_value) (simp_all add: P Q diff_report_inspection)
  show ?case unfolding sample_loop.simps
  proof (rule produces_and_then [OF m])
    fix x :: "bool option"
    show "produces P Q (case x of
           None \<Rightarrow> and_then (emit (Marker ''n'')) (\<lambda>_. sample_loop k a b acc)
         | Some True \<Rightarrow> and_then (emit (Marker ''.'')) (\<lambda>_. sample_loop k a b acc)
         | Some False \<Rightarrow> and_then (emit (Marker ''x'')) (\<lambda>_. sample_loop k a b (acc + 1)))"
      by (cases x; cases "the x")
         (auto intro!: produces_and_then produces_emit P Suc.IH)
  qed
qed

lemma produces_compare_multiple_random_values:
  assumes P: "\<And>m. inspection_message m \<Longrightarrow> P m" and Q: "\<And>s k. Q (Materialise s k)"
  shows "produces P Q (compare_multiple_random_values fs nc_a nc_b g v n)"
  unfolding compare_multiple_random_values_def
  by (intro produces_and_then produces_open_data_array produces_if produces_emit
        produces_sample_loop P Q)
     simp_all

lemma produces_print_sample_values:
  assumes P: "\<And>m. inspection_message m \<Longrightarrow> P m" and Q: "\<And>s k. Q (Materialise s k)"
  shows "produces P Q (print_sample_values s fs p g v)"
  unfolding print_sample_values_def
  by (intro produces_and_then produces_open_data_array produces_lift produces_emit
        produces_values_of P Q)
     simp_all

lemma produces_inspect_variable:
  assumes P: "\<And>m. inspection_message m \<Longrightarrow> P m" and Q: "\<And>s k. Q (Materialise s k)"
  shows "produces P Q (inspect_variable fs nc_a nc_b g v)"
  unfolding inspect_variable_def
  by (intro produces_and_then produces_emit produces_print_sample_values
        produces_compare_multiple_random_values P Q)
     simp_all

lemma produces_selected_group_none:
  assumes "\<not> truthy grp" "P NoGroupSelected"
  shows "produces P Q (selected_group fs a b grp var)"
  using assms by (simp add: selected_group_def produces_emit)

lemma produces_selected_group_no_variable:
  assumes "\<not> truthy var"
    and P: "\<And>m. group_listing_message m \<Longrightarrow> P m" "\<And>xs ys. P (ListsDiff xs ys)"
       "P NoVariableSelected" "P NoGroupSelected"
  shows "produces P Q (selected_group fs a b grp var)"
  unfolding selected_group_def using assms(1)
  by (auto intro!: produces_and_then produces_emit produces_print_vars P)

lemma produces_run_through_comparisons:
  assumes P: "P RootDimsHeader" "\<And>xs ys. P (ListsDiffDims xs ys)" "P GroupsHeader"
      "\<And>xs ys. P (ListsDiff xs ys)" "P AllVariablesHeader" "\<And>m. is_table_row m \<Longrightarrow> P m"
    and Q: "\<And>e. sorted_listing e \<Longrightarrow> Q e"
    and sel: "produces P Q (selected_group fs a b grp var)"
  shows "produces P Q (run_through_comparisons ce fs a b grp var sc)"
  unfolding run_through_comparisons_def
  by (intro produces_and_then produces_emit produces_get_dims produces_get_groups sel
        produces_compare_two_nc_files P Q)

lemma run_through_comparisons_opened:
  assumes "open_file fs a = Inr da" "open_file fs b = Inr db"
  shows "run_through_comparisons ce fs a b grp var sc w =
     and_then (selected_group fs a b grp var) (\<lambda>_.
     and_then (emit AllVariablesHeader) (\<lambda>_.
     compare_two_nc_files ce fs a b sc))
       (w\<lparr>out := out w @ [RootDimsHeader, ListsDiffDims (dims da) (dims db), GroupsHeader,
                           ListsDiff (map fst (groups da)) (map fst (groups db))]\<rparr>)"
  by (simp add: run_through_comparisons_def get_dims_def get_groups_def assms)

lemma all_variables_stage:
  "\<exists>rest. out (snd (and_then (emit AllVariablesHeader) (\<lambda>_. compare_two_nc_files ce fs a b sc) w)) =
     out w @ AllVariablesHeader # rest"
proof -
  have "produces (\<lambda>_. True) (\<lambda>_. True) (compare_two_nc_files ce fs a b sc)"
    by (rule produces_compare_two_nc_files) simp_all
  from produces_out [OF this, of "w\<lparr>out := out w @ [AllVariablesHeader]\<rparr>"]
  show ?thesis by simp
qed

lemma print_vars_opened:
  "open_group fs p g = Inr vars \<Longrightarrow>
   print_vars fs p g w = (Inr (sort (map fst vars)), w\<lparr>out := out w @ [PrintedNames (sort (map fst vars))]\<rparr>)"
  by (simp add: print_vars_def)

lemma print_vars_missing:
  "open_group fs p g = Inl OSError \<Longrightarrow>
   print_vars fs p g w = (Inl OSError, w\<lparr>out := out w @ [OpenGroupError p]\<rparr>)"
  by (simp add: print_vars_def)

subsection \<open>Claims about the sampler\<close>

lemma match_random_value_returns:
  assumes "\<forall>d\<in>set (shape a). 1 \<le> d" and "shape b = shape a"
  shows "\<exists>mr w'. match_random_value a b t w = (Inr mr, w')"
proof -
  from assms(1) obtain idx w0 where d: "draw_index (shape a) w = (Inr idx, w0)"
    using draw_index_total by blast
  from evaluate_at_in_range [OF draw_index_in_range [OF d] assms(2), of t w0]
  show ?thesis
    unfolding match_random_value_drawn [OF d] by (cases "evaluate_at a b t idx w0") auto
qed

lemma sample_loop_returns:
  assumes "\<forall>d\<in>set (shape a). 1 \<le> d" and "shape b = shape a"
  shows "\<exists>k w'. sample_loop n a b acc w = (Inr k, w')"
proof (induction n arbitrary: acc w)
  case 0
  show ?case by simp
next
  case (Suc n)
  from match_random_value_returns [OF assms] obtain mr w0 where
    "match_random_value a b default_thresh w = (Inr mr, w0)" by blast
  from sample_loop_Suc [OF this] Suc.IH show ?case by simp
qed

lemma sampler_returns:
  assumes oa: "open_variable fs nc_a g v = Inr va" and ob: "open_variable fs nc_b g v = Inr vb"
    and "\<forall>d\<in>set (shape va). 1 \<le> d" and "shape vb = shape va"
  shows "fst (compare_multiple_random_values fs nc_a nc_b g v n w) = Inr ()"
proof -
  from sample_loop_returns [OF assms(3,4)] obtain k w0 where
    "sample_loop (nat n) va vb 0 (w\<lparr>cache := cache w - {SideA} - {SideB}\<rparr>) = (Inr k, w0)"
    by blast
  from cmrv_run [OF oa ob this] show ?thesis by simp
qed




text \<open>
  Claim C3, amended. Whatever the number \<open>n\<close> of draws and however the run ends, what a run
  of \<^verbatim>\<open>compare_multiple_random_values\<close> reads of each variable is at most its whole array,
  the product of its extents in elements: the first draw takes \<^verbatim>\<open>.values\<close> of the
  variable, which loads the whole array and keeps it, and the later draws index the array
  that is kept. A run with \<open>n \<ge> 1\<close> that returns has read exactly the whole array of each
  variable, and a run with \<open>n \<le> 0\<close> reads nothing.
\<close>

theorem sampler_elements_read:
  assumes oa: "open_variable fs nc_a g v = Inr va" and ob: "open_variable fs nc_b g v = Inr vb"
  shows "elements_read SideA (logged (compare_multiple_random_values fs nc_a nc_b g v n) w)
           \<le> prod_list (shape va)
       \<and> elements_read SideB (logged (compare_multiple_random_values fs nc_a nc_b g v n) w)
           \<le> prod_list (shape vb)
       \<and> (fst (compare_multiple_random_values fs nc_a nc_b g v n w) = Inr () \<and> 1 \<le> n \<longrightarrow>
            elements_read SideA (logged (compare_multiple_random_values fs nc_a nc_b g v n) w)
              = prod_list (shape va)
          \<and> elements_read SideB (logged (compare_multiple_random_values fs nc_a nc_b g v n) w)
              = prod_list (shape vb))
       \<and> (n \<le> 0 \<longrightarrow> logged (compare_multiple_random_values fs nc_a nc_b g v n) w = [])"
proof -
  let ?W = "w\<lparr>cache := cache w - {SideA} - {SideB}\<rparr>"
  let ?m = "compare_multiple_random_values fs nc_a nc_b g v n"
  obtain r0 w0 where l: "sample_loop (nat n) va vb 0 ?W = (r0, w0)"
    by (cases "sample_loop (nat n) va vb 0 ?W")
  from sample_loop_reads [of va vb ?W "nat n" 0] l
  have "reads_once (prod_list (shape va)) (prod_list (shape vb)) ?W w0" by simp
  then obtain cs where cs: "calls w0 = calls w @ cs"
    and ea: "elements_read SideA cs = (if SideA \<in> cache w0 then prod_list (shape va) else 0)"
    and eb: "elements_read SideB cs = (if SideB \<in> cache w0 then prod_list (shape vb) else 0)"
    unfolding reads_once_def by auto
  have lg: "logged ?m w = cs"
    unfolding logged_def cmrv_run [OF oa ob l] using cs by (cases r0) simp_all
  have 1: "elements_read SideA (logged ?m w) \<le> prod_list (shape va)"
    and 2: "elements_read SideB (logged ?m w) \<le> prod_list (shape vb)"
    unfolding lg by (simp_all add: ea eb)
  have 3: "elements_read SideA (logged ?m w) = prod_list (shape va)
         \<and> elements_read SideB (logged ?m w) = prod_list (shape vb)"
    if h: "fst (?m w) = Inr () \<and> 1 \<le> n"
  proof -
    from h cmrv_run [OF oa ob l] obtain k where "r0 = Inr k" by (cases r0) simp_all
    with l have "sample_loop (nat n) va vb 0 ?W = (Inr k, w0)" by simp
    from sample_loop_run [OF this] h have "SideA \<in> cache w0 \<and> SideB \<in> cache w0" by auto
    then show ?thesis unfolding lg by (simp add: ea eb)
  qed
  have 4: "logged ?m w = []" if "n \<le> 0"
  proof -
    from that l have "w0 = ?W" by auto
    with cs show ?thesis unfolding lg by simp
  qed
  from 1 2 3 4 show ?thesis by blast
qed

text \<open>
  Claim C3 as stated bounds the elements read of each variable by \<open>n\<close>. One draw on a
  variable of three elements produces all three.
\<close>

theorem sampler_elements_read_counterexample:
  "fst (compare_multiple_random_values
     (two_files (one_group_file (const_variable [3] (Fin 1))) (one_group_file (const_variable [3] (Fin 1))))
     ''a.nc'' ''b.nc'' ''g'' ''v'' 1 (fixed_world 2)) = Inr ()
   \<and> elements_read SideA (logged (compare_multiple_random_values
     (two_files (one_group_file (const_variable [3] (Fin 1))) (one_group_file (const_variable [3] (Fin 1))))
     ''a.nc'' ''b.nc'' ''g'' ''v'' 1) (fixed_world 2)) = 3
   \<and> \<not> elements_read SideA (logged (compare_multiple_random_values
     (two_files (one_group_file (const_variable [3] (Fin 1))) (one_group_file (const_variable [3] (Fin 1))))
     ''a.nc'' ''b.nc'' ''g'' ''v'' 1) (fixed_world 2)) \<le> 1"
  by (simp add: logged_def sample_one_match) (simp add: fixed_world_def)

theorem sampler_elements_read_witness:
  "open_variable (two_files (one_group_file (const_variable [3] NaN)) (one_group_file (const_variable [3] NaN)))
     ''a.nc'' ''g'' ''v'' = Inr (const_variable [3] NaN)
   \<and> fst (compare_multiple_random_values
     (two_files (one_group_file (const_variable [3] NaN)) (one_group_file (const_variable [3] NaN)))
     ''a.nc'' ''b.nc'' ''g'' ''v'' 100 (fixed_world 2)) = Inr ()
   \<and> elements_read SideA (logged (compare_multiple_random_values
     (two_files (one_group_file (const_variable [3] NaN)) (one_group_file (const_variable [3] NaN)))
     ''a.nc'' ''b.nc'' ''g'' ''v'' 100) (fixed_world 2)) = 3
   \<and> elements_read SideB (logged (compare_multiple_random_values
     (two_files (one_group_file (const_variable [3] NaN)) (one_group_file (const_variable [3] NaN)))
     ''a.nc'' ''b.nc'' ''g'' ''v'' 100) (fixed_world 2)) = 3
   \<and> logged (compare_multiple_random_values
     (two_files (one_group_file (const_variable [3] NaN)) (one_group_file (const_variable [3] NaN)))
     ''a.nc'' ''b.nc'' ''g'' ''v'' 0) (fixed_world 2) = []"
proof -
  let ?fs = "two_files (one_group_file (const_variable [3] NaN)) (one_group_file (const_variable [3] NaN))"
  have r: "fst (compare_multiple_random_values ?fs ''a.nc'' ''b.nc'' ''g'' ''v'' 100 (fixed_world 2)) = Inr ()"
    by (rule sampler_returns [OF open_variable_two_files]) simp_all
  from r sampler_elements_read [OF open_variable_two_files, of "const_variable [3] NaN"
      "const_variable [3] NaN" 100 "fixed_world 2"]
    sampler_elements_read [OF open_variable_two_files, of "const_variable [3] NaN"
      "const_variable [3] NaN" 0 "fixed_world 2"]
  show ?thesis by (simp add: open_variable_two_files)
qed

text \<open>
  Claim C8. With the default tolerance, a variable compared with a variable of the same
  shape and the same value at every index gives no mismatch, whatever the number of draws:
  the run prints only \<^verbatim>\<open>.\<close> and \<^verbatim>\<open>n\<close> markers, \<^verbatim>\<open>No mismatches.\<close> and \<^verbatim>\<open>Done.\<close>,
  never an \<^verbatim>\<open>x\<close>, and the loop ends with \<^verbatim>\<open>num_mismatches = 0\<close>.
\<close>

theorem identical_variables_no_mismatch:
  assumes oa: "open_variable fs nc_a g v = Inr va" and ob: "open_variable fs nc_b g v = Inr vb"
    and same: "shape vb = shape va" "element vb = element va"
  shows "list_all (\<lambda>m. m = Marker ''.'' \<or> m = Marker ''n'' \<or> m = NoMismatches \<or> m = SamplerDone)
           (printed (compare_multiple_random_values fs nc_a nc_b g v n) w)
       \<and> Marker ''x'' \<notin> set (printed (compare_multiple_random_values fs nc_a nc_b g v n) w)
       \<and> (\<forall>k. fst (sample_loop (nat n) va vb 0 w) = Inr k \<longrightarrow> k = 0)"
proof -
  let ?ok = "\<lambda>m. m = Marker ''.'' \<or> m = Marker ''n'' \<or> m = NoMismatches \<or> m = SamplerDone"
  let ?W = "w\<lparr>cache := cache w - {SideA} - {SideB}\<rparr>"
  obtain r0 w0 where l: "sample_loop (nat n) va vb 0 ?W = (r0, w0)"
    by (cases "sample_loop (nat n) va vb 0 ?W")
  from sample_loop_identical [OF same, of "nat n" 0 ?W] l obtain ms where
    1: "out w0 = out w @ ms" and 2: "list_all (\<lambda>m. m = Marker ''.'' \<or> m = Marker ''n'') ms"
    and 3: "\<forall>r. r0 = Inr r \<longrightarrow> r = 0"
    by auto
  from 2 have ms: "list_all ?ok ms"
    by (rule list.pred_mono_strong) (erule disjE; simp)
  have p: "printed (compare_multiple_random_values fs nc_a nc_b g v n) w =
             ms @ (case r0 of Inl e \<Rightarrow> [] | Inr k \<Rightarrow> [NoMismatches, SamplerDone])"
  proof (cases r0)
    case (Inl e)
    with l have l': "sample_loop (nat n) va vb 0 ?W = (Inl e, w0)" by simp
    show ?thesis by (simp add: cmrv_run [OF oa ob l'] printed_def 1 Inl)
  next
    case (Inr k)
    with 3 l have l': "sample_loop (nat n) va vb 0 ?W = (Inr 0, w0)" by simp
    show ?thesis by (simp add: cmrv_run [OF oa ob l'] printed_def 1 Inr)
  qed
  have 4: "list_all ?ok (printed (compare_multiple_random_values fs nc_a nc_b g v n) w)"
    unfolding p using ms by (cases r0) simp_all
  have 5: "Marker ''x'' \<notin> set (printed (compare_multiple_random_values fs nc_a nc_b g v n) w)"
  proof
    assume "Marker ''x'' \<in> set (printed (compare_multiple_random_values fs nc_a nc_b g v n) w)"
    with 4 have "?ok (Marker ''x'')"
      unfolding list_all_iff by (rule bspec)
    then show False by simp
  qed
  have 6: "\<forall>k. fst (sample_loop (nat n) va vb 0 w) = Inr k \<longrightarrow> k = 0"
    using sample_loop_identical [OF same, of "nat n" 0 w] by blast
  show ?thesis by (intro conjI 4 5 6)
qed

theorem identical_variables_no_mismatch_witness:
  "shape (const_variable [3] (Fin 1)) = shape (const_variable [3] (Fin 1))
   \<and> Marker ''x'' \<notin> set (printed (compare_multiple_random_values
     (two_files (one_group_file (const_variable [3] (Fin 1))) (one_group_file (const_variable [3] (Fin 1))))
     ''a.nc'' ''b.nc'' ''g'' ''v'' 100) (fixed_world 2))"
proof -
  from identical_variables_no_mismatch [OF open_variable_two_files refl refl, where n = 100 and w = "fixed_world 2"]
  show ?thesis by blast
qed

subsection \<open>Failed lookups and listings\<close>

lemma open_file_two_files:
  "open_file (two_files da db) ''a.nc'' = Inr da"
  "open_file (two_files da db) ''b.nc'' = Inr db"
  by (simp_all add: open_file_def two_files_def)

lemma open_group_two_files:
  "open_group (two_files (one_group_file va) (one_group_file vb)) ''a.nc'' ''g'' = Inr [(''v'', va)]"
  "open_group (two_files (one_group_file va) (one_group_file vb)) ''b.nc'' ''g'' = Inr [(''v'', vb)]"
  "open_group (two_files (one_group_file va) (one_group_file vb)) ''a.nc'' ''h'' = Inl OSError"
  by (simp_all add: open_group_def open_dataset_def open_file_two_files one_group_file_def
        strip_slashes_def)

lemma open_group_file:
  "open_group fs p g = Inr vars \<Longrightarrow> \<exists>ds. open_file fs p = Inr ds"
  by (cases "open_file fs p") (simp_all add: open_group_def open_dataset_def)

lemma open_variable_missing_two_files:
  "open_variable (two_files (one_group_file va) (one_group_file vb)) ''a.nc'' ''g'' ''w'' =
     Inl (KeyError ''w'')"
  by (simp add: open_variable_def open_dataset_two_files dimension_lookup_def)

lemma getitem_first_row:
  assumes "2 \<le> length sh" "0 < hd sh"
  shows "\<exists>row. getitem_first \<lparr>nshape = sh, nelement = e\<rparr> = Inr row"
proof -
  from assms obtain d ds where sh: "sh = d # ds" "0 < d" by (cases sh) auto
  then show ?thesis using assms
    by (auto simp: getitem_first_def getitem_def norm_index_def)
qed

lemma inspect_variable_missing_a:
  assumes "open_variable fs a g v = Inl (KeyError k)"
  shows "inspect_variable fs a b g v w = (Inl (KeyError k), w\<lparr>out := out w @ [SampleHeader v]\<rparr>)"
  by (simp add: inspect_variable_def print_sample_values_def and_then_assoc
        and_then_open_data_array(2) [OF assms])

lemma inspect_variable_missing_b:
  assumes "open_variable fs a g v = Inr va"
    and "2 \<le> length (shape va)" "0 < hd (shape va)"
    and "open_variable fs b g v = Inl (KeyError k)"
  shows "\<exists>row w'. inspect_variable fs a b g v w = (Inl (KeyError k), w')
           \<and> out w' = out w @ [SampleHeader v, SampleValues row]"
proof -
  from getitem_first_row [OF assms(2,3)] obtain row where
    "getitem_first \<lparr>nshape = shape va, nelement = element va\<rparr> = Inr row" by blast
  then show ?thesis
    by (simp add: inspect_variable_def print_sample_values_def and_then_assoc
          and_then_open_data_array(1) [OF assms(1)] and_then_open_data_array(2) [OF assms(4)])
qed

text \<open>
  A variable of file A that opens and has one axis only, or nothing along its first axis,
  has no sample values: \<^verbatim>\<open>.values[0, :]\<close> raises \<^verbatim>\<open>IndexError\<close>, which is not caught.
\<close>

lemma getitem_first_no_row:
  assumes "length sh < 2 \<or> hd sh = 0"
  shows "getitem_first \<lparr>nshape = sh, nelement = e\<rparr> = Inl IndexError"
proof (cases "length sh < 2")
  case True
  then show ?thesis by (simp add: getitem_first_def)
next
  case False
  with assms obtain ds where "sh = 0 # ds" by (cases sh) auto
  with False show ?thesis by (simp add: getitem_first_def getitem_def norm_index_def)
qed

lemma inspect_variable_no_row:
  assumes "open_variable fs a g v = Inr va"
    and "length (shape va) < 2 \<or> hd (shape va) = 0"
  shows "fst (inspect_variable fs a b g v w) = Inl IndexError"
  using getitem_first_no_row [OF assms(2), of "element va"]
  by (simp add: inspect_variable_def print_sample_values_def and_then_assoc
        and_then_open_data_array(1) [OF assms(1)])

lemma selected_group_lookup_failure:
  assumes ga: "open_group fs a g = Inr vars_a" and gb: "open_group fs b g = Inr vars_b"
    and names: "g \<noteq> []" "v \<noteq> []"
    and fail: "inspect_variable fs a b g v
                 (w\<lparr>out := out w @ [GroupVarsHeader g, PrintedNames (sort (map fst vars_a)),
                                     PrintedNames (sort (map fst vars_b)),
                                     ListsDiff (sort (map fst vars_a)) (sort (map fst vars_b))]\<rparr>)
               = (Inl (KeyError k), w')"
  shows "selected_group fs a b (Some g) (Some v) w =
           (Inr (), w'\<lparr>out := out w' @ [LookupErrorReport v g, Traceback (KeyError k), Newline]\<rparr>)"
  using names
  by (simp add: selected_group_def
        and_then_Inr [where m = "print_vars fs a g", OF print_vars_opened [OF ga]]
        and_then_Inr [where m = "print_vars fs b g", OF print_vars_opened [OF gb]]
        except_KeyError_def fail)

lemma selected_group_missing_a:
  assumes "g \<noteq> []" and e: "open_group fs a g = Inl OSError"
  shows "selected_group fs a b (Some g) var w =
           (Inl OSError, w\<lparr>out := out w @ [GroupVarsHeader g, OpenGroupError a]\<rparr>)"
  using assms(1)
  by (simp add: selected_group_def
        and_then_Inl [where m = "print_vars fs a g", OF print_vars_missing [OF e]])

lemma selected_group_missing_b:
  assumes "g \<noteq> []" and a: "open_group fs a g = Inr vars" and e: "open_group fs b g = Inl OSError"
  shows "selected_group fs a b (Some g) var w =
           (Inl OSError, w\<lparr>out := out w @ [GroupVarsHeader g, PrintedNames (sort (map fst vars)),
                                             OpenGroupError b]\<rparr>)"
  using assms(1)
  by (simp add: selected_group_def
        and_then_Inr [where m = "print_vars fs a g", OF print_vars_opened [OF a]]
        and_then_Inl [where m = "print_vars fs b g", OF print_vars_missing [OF e]])

lemma run_after_lookup_failure:
  assumes fa: "open_file fs a = Inr da" and fb: "open_file fs b = Inr db"
    and sel: "selected_group fs a b grp var
                (w\<lparr>out := out w @ [RootDimsHeader, ListsDiffDims (dims da) (dims db), GroupsHeader,
                                    ListsDiff (map fst (groups da)) (map fst (groups db))]\<rparr>)
              = (Inr (), w')"
    and out: "out w' = out w @ ms"
  shows "\<exists>rest. printed (run_through_comparisons ce fs a b grp var sc) w = ms @ AllVariablesHeader # rest"
proof -
  from all_variables_stage [of ce fs a b sc w'] obtain rest where
    "out (snd (and_then (emit AllVariablesHeader) (\<lambda>_. compare_two_nc_files ce fs a b sc) w')) =
       out w' @ AllVariablesHeader # rest" by blast
  then show ?thesis
    using out
    by (simp add: run_through_comparisons_opened [OF fa fb] printed_def
          and_then_Inr [where m = "selected_group fs a b grp var", OF sel] del: and_then_emit)
qed

lemma print_vars_sorted:
  "print_vars fs p g w = (Inr names, w') \<Longrightarrow> sorted names"
  by (cases "open_group fs p g")
     (auto simp: print_vars_def and_then_def throw_def split: error.splits)

lemma group_listings_sorted:
  "list_all sorted_listing (logged (run_through_comparisons ce fs a b grp var sc) w)"
proof -
  have "produces (\<lambda>_. True) sorted_listing (selected_group fs a b grp var)"
    unfolding selected_group_def
    by (intro produces_if produces_and_then produces_emit produces_print_vars
          produces_except_KeyError produces_inspect_variable)
       simp_all
  then have "produces (\<lambda>_. True) sorted_listing (run_through_comparisons ce fs a b grp var sc)"
    by (intro produces_run_through_comparisons) simp_all
  from produces_calls [OF this] show ?thesis by simp
qed

lemma unsorted_file_names: "map fst (variables unsorted_file) = [''b'', ''a'']"
  by (simp add: unsorted_file_def)

subsection \<open>Claims about the orchestrator\<close>

text \<open>
  Claim C7. Without a group name \<^verbatim>\<open>run_through_comparisons\<close> prints nothing of the
  listing of a selected group and nothing of the inspection of a variable; without a
  variable name it prints nothing of the inspection. In both cases, once the files and the
  selected group open, the skip message is followed at once by the header of the
  all-variables stage.
\<close>

theorem stages_only_when_selected:
  "(\<not> truthy grp \<longrightarrow>
      list_all (\<lambda>m. \<not> group_listing_message m \<and> \<not> inspection_message m)
        (printed (run_through_comparisons ce fs a b grp var sc) w))
   \<and> (\<not> truthy var \<longrightarrow>
      list_all (\<lambda>m. \<not> inspection_message m)
        (printed (run_through_comparisons ce fs a b grp var sc) w))
   \<and> (\<not> truthy grp \<and> open_file fs a = Inr da \<and> open_file fs b = Inr db \<longrightarrow>
      (\<exists>rest. printed (run_through_comparisons ce fs a b grp var sc) w =
         [RootDimsHeader, ListsDiffDims (dims da) (dims db), GroupsHeader,
          ListsDiff (map fst (groups da)) (map fst (groups db)),
          NoGroupSelected, AllVariablesHeader] @ rest))
   \<and> (truthy grp \<and> \<not> truthy var \<and> open_file fs a = Inr da \<and> open_file fs b = Inr db
        \<and> open_group fs a (the grp) = Inr vars_a \<and> open_group fs b (the grp) = Inr vars_b \<longrightarrow>
      (\<exists>rest. printed (run_through_comparisons ce fs a b grp var sc) w =
         [RootDimsHeader, ListsDiffDims (dims da) (dims db), GroupsHeader,
          ListsDiff (map fst (groups da)) (map fst (groups db)),
          GroupVarsHeader (the grp), PrintedNames (sort (map fst vars_a)),
          PrintedNames (sort (map fst vars_b)),
          ListsDiff (sort (map fst vars_a)) (sort (map fst vars_b)),
          NoVariableSelected, AllVariablesHeader] @ rest))"
proof (intro conjI impI)
  assume g: "\<not> truthy grp"
  have "produces (\<lambda>m. \<not> group_listing_message m \<and> \<not> inspection_message m) (\<lambda>_. True)
          (run_through_comparisons ce fs a b grp var sc)"
    by (rule produces_run_through_comparisons [OF _ _ _ _ _ _ _ produces_selected_group_none [OF g]])
       (auto elim: is_table_row.elims)
  from produces_out [OF this, of w]
  show "list_all (\<lambda>m. \<not> group_listing_message m \<and> \<not> inspection_message m)
          (printed (run_through_comparisons ce fs a b grp var sc) w)"
    by simp
next
  assume v: "\<not> truthy var"
  have "produces (\<lambda>m. \<not> inspection_message m) (\<lambda>_. True)
          (run_through_comparisons ce fs a b grp var sc)"
    by (rule produces_run_through_comparisons [OF _ _ _ _ _ _ _ produces_selected_group_no_variable [OF v]])
       (auto elim: is_table_row.elims group_listing_message.elims)
  from produces_out [OF this, of w]
  show "list_all (\<lambda>m. \<not> inspection_message m)
          (printed (run_through_comparisons ce fs a b grp var sc) w)"
    by simp
next
  assume h: "\<not> truthy grp \<and> open_file fs a = Inr da \<and> open_file fs b = Inr db"
  let ?w1 = "w\<lparr>out := out w @ [RootDimsHeader, ListsDiffDims (dims da) (dims db), GroupsHeader,
                           ListsDiff (map fst (groups da)) (map fst (groups db)), NoGroupSelected]\<rparr>"
  from all_variables_stage [of ce fs a b sc ?w1] obtain rest where
    "out (snd (and_then (emit AllVariablesHeader) (\<lambda>_. compare_two_nc_files ce fs a b sc) ?w1)) =
       out ?w1 @ AllVariablesHeader # rest" by blast
  with h show "\<exists>rest. printed (run_through_comparisons ce fs a b grp var sc) w =
         [RootDimsHeader, ListsDiffDims (dims da) (dims db), GroupsHeader,
          ListsDiff (map fst (groups da)) (map fst (groups db)),
          NoGroupSelected, AllVariablesHeader] @ rest"
    by (simp add: run_through_comparisons_opened [of fs a da b db] selected_group_def printed_def
          del: and_then_emit)
       (simp add: and_then_def)
next
  assume h: "truthy grp \<and> \<not> truthy var \<and> open_file fs a = Inr da \<and> open_file fs b = Inr db
        \<and> open_group fs a (the grp) = Inr vars_a \<and> open_group fs b (the grp) = Inr vars_b"
  let ?w1 = "w\<lparr>out := out w @ [RootDimsHeader, ListsDiffDims (dims da) (dims db), GroupsHeader,
          ListsDiff (map fst (groups da)) (map fst (groups db)),
          GroupVarsHeader (the grp), PrintedNames (sort (map fst vars_a)),
          PrintedNames (sort (map fst vars_b)),
          ListsDiff (sort (map fst vars_a)) (sort (map fst vars_b)),
          NoVariableSelected]\<rparr>"
  from all_variables_stage [of ce fs a b sc ?w1] obtain rest where
    "out (snd (and_then (emit AllVariablesHeader) (\<lambda>_. compare_two_nc_files ce fs a b sc) ?w1)) =
       out ?w1 @ AllVariablesHeader # rest" by blast
  with h show "\<exists>rest. printed (run_through_comparisons ce fs a b grp var sc) w =
         [RootDimsHeader, ListsDiffDims (dims da) (dims db), GroupsHeader,
          ListsDiff (map fst (groups da)) (map fst (groups db)),
          GroupVarsHeader (the grp), PrintedNames (sort (map fst vars_a)),
          PrintedNames (sort (map fst vars_b)),
          ListsDiff (sort (map fst vars_a)) (sort (map fst vars_b)),
          NoVariableSelected, AllVariablesHeader] @ rest"
    by (simp add: run_through_comparisons_opened [of fs a da b db] selected_group_def printed_def
          and_then_Inr [where m = "print_vars fs a (the grp)", OF print_vars_opened]
          and_then_Inr [where m = "print_vars fs b (the grp)", OF print_vars_opened]
          del: and_then_emit)
       (simp add: and_then_def print_vars_opened)
qed

theorem stages_only_when_selected_witness:
  "\<not> truthy None \<and> \<not> truthy (Some [])
   \<and> open_file (two_files (one_group_file (const_variable [3] (Fin 1)))
                  (one_group_file (const_variable [3] (Fin 1)))) ''a.nc''
       = Inr (one_group_file (const_variable [3] (Fin 1)))
   \<and> (\<exists>rest. printed (run_through_comparisons shared_names
          (two_files (one_group_file (const_variable [3] (Fin 1)))
                     (one_group_file (const_variable [3] (Fin 1))))
          ''a.nc'' ''b.nc'' None None False) (fixed_world 2) =
         [RootDimsHeader, ListsDiffDims [(''x'', 3)] [(''x'', 3)], GroupsHeader,
          ListsDiff [''g''] [''g''], NoGroupSelected, AllVariablesHeader] @ rest)
   \<and> (\<exists>rest. printed (run_through_comparisons shared_names
          (two_files (one_group_file (const_variable [3] (Fin 1)))
                     (one_group_file (const_variable [3] (Fin 1))))
          ''a.nc'' ''b.nc'' (Some ''g'') (Some []) False) (fixed_world 2) =
         [RootDimsHeader, ListsDiffDims [(''x'', 3)] [(''x'', 3)], GroupsHeader,
          ListsDiff [''g''] [''g''], GroupVarsHeader ''g'', PrintedNames [''v''],
          PrintedNames [''v''], ListsDiff [''v''] [''v''],
          NoVariableSelected, AllVariablesHeader] @ rest)"
  using stages_only_when_selected [where grp = None and var = None and ce = shared_names
          and fs = "two_files (one_group_file (const_variable [3] (Fin 1))) (one_group_file (const_variable [3] (Fin 1)))"
          and a = "''a.nc''" and b = "''b.nc''" and sc = False and w = "fixed_world 2"
          and da = "one_group_file (const_variable [3] (Fin 1))"
          and db = "one_group_file (const_variable [3] (Fin 1))"]
        stages_only_when_selected [where grp = "Some ''g''" and var = "Some []" and ce = shared_names
          and fs = "two_files (one_group_file (const_variable [3] (Fin 1))) (one_group_file (const_variable [3] (Fin 1)))"
          and a = "''a.nc''" and b = "''b.nc''" and sc = False and w = "fixed_world 2"
          and da = "one_group_file (const_variable [3] (Fin 1))"
          and db = "one_group_file (const_variable [3] (Fin 1))"
          and vars_a = "[(''v'', const_variable [3] (Fin 1))]"
          and vars_b = "[(''v'', const_variable [3] (Fin 1))]"]
  by (simp add: open_file_two_files open_group_two_files) (simp add: one_group_file_def)

text \<open>
  Claim C4, amended. With a group name and a variable name supplied and the group opening
  in both files: when looking the variable name up in the group raises \<^verbatim>\<open>KeyError\<close> in
  file A, or raises it in file B while the variable of file A has two axes at least and a
  first extent above 0 (so that its sample values print), the \<^verbatim>\<open>KeyError\<close> is caught and
  reported with the variable, the group and the error, and the run goes on to the
  all-variables stage. When the group does not open in one of the files, \<^verbatim>\<open>_print_vars\<close>
  reports the file and raises the \<^verbatim>\<open>OSError\<close> again: the run ends there and the
  all-variables stage is not reached.
\<close>

theorem lookup_failure_handling:
  "(open_group fs a g = Inr vars_a \<and> open_group fs b g = Inr vars_b \<and> g \<noteq> [] \<and> v \<noteq> []
     \<and> (open_variable fs a g v = Inl (KeyError k)
        \<or> (\<exists>va. open_variable fs a g v = Inr va \<and> 2 \<le> length (shape va) \<and> 0 < hd (shape va))
            \<and> open_variable fs b g v = Inl (KeyError k)) \<longrightarrow>
      (\<exists>pre rest. printed (run_through_comparisons ce fs a b (Some g) (Some v) sc) w =
         pre @ [LookupErrorReport v g, Traceback (KeyError k), Newline, AllVariablesHeader] @ rest))
   \<and> (open_file fs a = Inr da \<and> open_file fs b = Inr db \<and> g \<noteq> []
       \<and> (open_group fs a g = Inl OSError
          \<or> (\<exists>vars. open_group fs a g = Inr vars) \<and> open_group fs b g = Inl OSError) \<longrightarrow>
      fst (run_through_comparisons ce fs a b (Some g) var sc w) = Inl OSError
      \<and> AllVariablesHeader \<notin> set (printed (run_through_comparisons ce fs a b (Some g) var sc) w)
      \<and> (\<exists>p. last (printed (run_through_comparisons ce fs a b (Some g) var sc) w) = OpenGroupError p))"
proof (intro conjI impI)
  assume h: "open_group fs a g = Inr vars_a \<and> open_group fs b g = Inr vars_b \<and> g \<noteq> [] \<and> v \<noteq> []
     \<and> (open_variable fs a g v = Inl (KeyError k)
        \<or> (\<exists>va. open_variable fs a g v = Inr va \<and> 2 \<le> length (shape va) \<and> 0 < hd (shape va))
            \<and> open_variable fs b g v = Inl (KeyError k))"
  then have ga: "open_group fs a g = Inr vars_a" and gb: "open_group fs b g = Inr vars_b"
    and names: "g \<noteq> []" "v \<noteq> []" by simp_all
  from open_group_file [OF ga] obtain da where fa: "open_file fs a = Inr da" by blast
  from open_group_file [OF gb] obtain db where fb: "open_file fs b = Inr db" by blast
  let ?w0 = "w\<lparr>out := out w @ [RootDimsHeader, ListsDiffDims (dims da) (dims db), GroupsHeader,
                                ListsDiff (map fst (groups da)) (map fst (groups db))]\<rparr>"
  let ?w1 = "?w0\<lparr>out := out ?w0 @ [GroupVarsHeader g, PrintedNames (sort (map fst vars_a)),
                                     PrintedNames (sort (map fst vars_b)),
                                     ListsDiff (sort (map fst vars_a)) (sort (map fst vars_b))]\<rparr>"
  have "\<exists>w' ms. inspect_variable fs a b g v ?w1 = (Inl (KeyError k), w') \<and> out w' = out ?w1 @ ms"
  proof (cases "open_variable fs a g v")
    case (Inl e)
    with h have "open_variable fs a g v = Inl (KeyError k)" by auto
    from inspect_variable_missing_a [OF this, of b ?w1] show ?thesis by simp
  next
    case (Inr va)
    with h have "2 \<le> length (shape va)" "0 < hd (shape va)"
      "open_variable fs b g v = Inl (KeyError k)" by auto
    from inspect_variable_missing_b [OF Inr this, of ?w1]
    show ?thesis by auto
  qed
  then obtain w' ms where i: "inspect_variable fs a b g v ?w1 = (Inl (KeyError k), w')"
    and o: "out w' = out ?w1 @ ms" by blast
  note sel = selected_group_lookup_failure [OF ga gb names, of ?w0 k w', simplified, OF i [simplified]]
  have "\<exists>rest. printed (run_through_comparisons ce fs a b (Some g) (Some v) sc) w =
          (drop (length (out w)) (out w') @ [LookupErrorReport v g, Traceback (KeyError k), Newline])
          @ AllVariablesHeader # rest"
    by (rule run_after_lookup_failure [OF fa fb sel]) (simp add: o)
  then show "\<exists>pre rest. printed (run_through_comparisons ce fs a b (Some g) (Some v) sc) w =
         pre @ [LookupErrorReport v g, Traceback (KeyError k), Newline, AllVariablesHeader] @ rest"
    by (metis append.assoc append_Cons append_Nil)
next
  assume h: "open_file fs a = Inr da \<and> open_file fs b = Inr db \<and> g \<noteq> []
       \<and> (open_group fs a g = Inl OSError
          \<or> (\<exists>vars. open_group fs a g = Inr vars) \<and> open_group fs b g = Inl OSError)"
  then have fa: "open_file fs a = Inr da" and fb: "open_file fs b = Inr db" and g: "g \<noteq> []"
    by simp_all
  have "\<exists>p pre. run_through_comparisons ce fs a b (Some g) var sc w =
          (Inl OSError, w\<lparr>out := out w @ pre @ [OpenGroupError p]\<rparr>) \<and> AllVariablesHeader \<notin> set pre"
  proof (cases "open_group fs a g")
    case (Inl e)
    with h have e: "open_group fs a g = Inl OSError" by auto
    show ?thesis
      by (rule exI [of _ a],
          rule exI [of _ "[RootDimsHeader, ListsDiffDims (dims da) (dims db), GroupsHeader,
             ListsDiff (map fst (groups da)) (map fst (groups db)), GroupVarsHeader g]"])
         (simp add: run_through_comparisons_opened [OF fa fb]
            and_then_Inl [where m = "selected_group fs a b (Some g) var",
              OF selected_group_missing_a [OF g e]])
  next
    case (Inr vars)
    with h have e: "open_group fs b g = Inl OSError" by auto
    show ?thesis
      by (rule exI [of _ b],
          rule exI [of _ "[RootDimsHeader, ListsDiffDims (dims da) (dims db), GroupsHeader,
             ListsDiff (map fst (groups da)) (map fst (groups db)), GroupVarsHeader g,
             PrintedNames (sort (map fst vars))]"])
         (simp add: run_through_comparisons_opened [OF fa fb]
            and_then_Inl [where m = "selected_group fs a b (Some g) var",
              OF selected_group_missing_b [OF g Inr e]])
  qed
  then obtain p pre where r: "run_through_comparisons ce fs a b (Some g) var sc w =
          (Inl OSError, w\<lparr>out := out w @ pre @ [OpenGroupError p]\<rparr>)"
    and n: "AllVariablesHeader \<notin> set pre" by blast
  show "fst (run_through_comparisons ce fs a b (Some g) var sc w) = Inl OSError"
    using r by simp
  show "AllVariablesHeader \<notin> set (printed (run_through_comparisons ce fs a b (Some g) var sc) w)"
    using r n by (simp add: printed_def)
  show "\<exists>p. last (printed (run_through_comparisons ce fs a b (Some g) var sc) w) = OpenGroupError p"
    using r by (simp add: printed_def)
qed

text \<open>
  Claim C4 as stated has the run go on when the group does not exist. With the group
  \<^verbatim>\<open>h\<close>, which neither file has, the run raises \<^verbatim>\<open>OSError\<close> after the report of
  \<^verbatim>\<open>_print_vars\<close>; nothing of the all-variables stage is printed.
\<close>

theorem lookup_failure_handling_counterexample:
  "fst (run_through_comparisons shared_names
          (two_files (one_group_file (const_variable [3] (Fin 1)))
                     (one_group_file (const_variable [3] (Fin 1))))
          ''a.nc'' ''b.nc'' (Some ''h'') (Some ''v'') False (fixed_world 2)) = Inl OSError
   \<and> printed (run_through_comparisons shared_names
          (two_files (one_group_file (const_variable [3] (Fin 1)))
                     (one_group_file (const_variable [3] (Fin 1))))
          ''a.nc'' ''b.nc'' (Some ''h'') (Some ''v'') False) (fixed_world 2) =
       [RootDimsHeader, ListsDiffDims [(''x'', 3)] [(''x'', 3)], GroupsHeader,
        ListsDiff [''g''] [''g''], GroupVarsHeader ''h'', OpenGroupError ''a.nc'']"
  by (simp add: run_through_comparisons_opened [OF open_file_two_files] printed_def
        and_then_Inl [where m = "selected_group _ _ _ _ _", OF selected_group_missing_a [OF _ open_group_two_files(3)]])
     (simp add: one_group_file_def fixed_world_def)

theorem lookup_failure_handling_witness:
  "open_group (two_files (one_group_file (const_variable [3] (Fin 1)))
                         (one_group_file (const_variable [3] (Fin 1)))) ''a.nc'' ''g''
     = Inr [(''v'', const_variable [3] (Fin 1))]
   \<and> open_variable (two_files (one_group_file (const_variable [3] (Fin 1)))
                         (one_group_file (const_variable [3] (Fin 1)))) ''a.nc'' ''g'' ''w''
     = Inl (KeyError ''w'')
   \<and> (\<exists>pre rest. printed (run_through_comparisons shared_names
          (two_files (one_group_file (const_variable [3] (Fin 1)))
                     (one_group_file (const_variable [3] (Fin 1))))
          ''a.nc'' ''b.nc'' (Some ''g'') (Some ''w'') False) (fixed_world 2) =
         pre @ [LookupErrorReport ''w'' ''g'', Traceback (KeyError ''w''), Newline, AllVariablesHeader] @ rest)
   \<and> open_group (two_files (one_group_file (const_variable [3] (Fin 1)))
                         (one_group_file (const_variable [3] (Fin 1)))) ''a.nc'' ''h'' = Inl OSError
   \<and> fst (run_through_comparisons shared_names
          (two_files (one_group_file (const_variable [3] (Fin 1)))
                     (one_group_file (const_variable [3] (Fin 1))))
          ''a.nc'' ''b.nc'' (Some ''h'') (Some ''w'') False (fixed_world 2)) = Inl OSError"
  using lookup_failure_handling [where ce = shared_names
          and fs = "two_files (one_group_file (const_variable [3] (Fin 1))) (one_group_file (const_variable [3] (Fin 1)))"
          and a = "''a.nc''" and b = "''b.nc''" and g = "''g''" and v = "''w''" and sc = False
          and w = "fixed_world 2" and k = "''w''"
          and vars_a = "[(''v'', const_variable [3] (Fin 1))]"
          and vars_b = "[(''v'', const_variable [3] (Fin 1))]"]
        lookup_failure_handling [where ce = shared_names
          and fs = "two_files (one_group_file (const_variable [3] (Fin 1))) (one_group_file (const_variable [3] (Fin 1)))"
          and a = "''a.nc''" and b = "''b.nc''" and g = "''h''" and var = "Some ''w''" and sc = False
          and w = "fixed_world 2"
          and da = "one_group_file (const_variable [3] (Fin 1))"
          and db = "one_group_file (const_variable [3] (Fin 1))"]
  by (simp add: open_group_two_files open_file_two_files open_variable_missing_two_files)

text \<open>
  Claim C6. The names of the variables of a group are sorted before \<^verbatim>\<open>common_elements\<close>
  gets them (\<open>group_listings_sorted\<close>), and \<^verbatim>\<open>_print_vars\<close> returns a sorted list
  (\<open>print_vars_sorted\<close>). The names of the root variables are not sorted: for two files
  whose root variables are \<^verbatim>\<open>b\<close>, \<^verbatim>\<open>a\<close> in that order, the first call of
  \<^verbatim>\<open>common_elements\<close> gets \<^verbatim>\<open>['b', 'a']\<close> for each.
\<close>

theorem root_variables_listing_unsorted:
  "(\<exists>rest. logged (compare_two_nc_files ce (two_files unsorted_file unsorted_file)
               ''a.nc'' ''b.nc'' show_chunks) w =
            Align RootVariables [''b'', ''a''] [''b'', ''a''] # rest)
   \<and> \<not> sorted [''b'', ''a'']"
proof
  let ?fs = "two_files unsorted_file unsorted_file"
  let ?w1 = "w\<lparr>out := out w @ [TableHeader, DashLine,
                 NumVarsRoot (length (variables unsorted_file)) (length (variables unsorted_file))],
               calls := calls w @ [Align RootVariables [''b'', ''a''] [''b'', ''a'']]\<rparr>"
  let ?k = "and_then (variable_rows unsorted_file unsorted_file None None show_chunks
                 (ce (map fst (variables unsorted_file)) (map fst (variables unsorted_file)))) (\<lambda>_.
     and_then (record_call (Align RootGroups (map fst (groups unsorted_file)) (map fst (groups unsorted_file)))) (\<lambda>_.
     group_rows ce unsorted_file unsorted_file show_chunks
       (ce (map fst (groups unsorted_file)) (map fst (groups unsorted_file)))))"
  have run: "compare_two_nc_files ce ?fs ''a.nc'' ''b.nc'' show_chunks w = ?k ?w1"
    by (simp add: compare_two_nc_files_def open_file_two_files unsorted_file_names)
  have "produces (\<lambda>_. True) (\<lambda>_. True) ?k"
    by (intro produces_and_then produces_variable_rows produces_record_call produces_group_rows)
       simp_all
  then obtain cs where "calls (snd (?k ?w1)) = calls ?w1 @ cs"
    unfolding produces_def by blast
  then have "logged (compare_two_nc_files ce ?fs ''a.nc'' ''b.nc'' show_chunks) w =
               Align RootVariables [''b'', ''a''] [''b'', ''a''] # cs"
    by (simp add: logged_def run)
  then show "\<exists>rest. logged (compare_two_nc_files ce ?fs ''a.nc'' ''b.nc'' show_chunks) w =
            Align RootVariables [''b'', ''a''] [''b'', ''a''] # rest"
    by blast
  show "\<not> sorted [''b'', ''a'']"
    by simp
qed

text \<open>
  Claim C10. Once both paths are valid, \<^verbatim>\<open>compare\<close> with \<^verbatim>\<open>no_color\<close> leaves every
  attribute of \<^verbatim>\<open>Fore\<close> and of \<^verbatim>\<open>Style\<close> the empty string, under the same names, and
  that is the state the process is in after the call, whether the run returned or raised;
  without \<^verbatim>\<open>no_color\<close> both dictionaries are as they were.
\<close>

theorem no_color_blanks_styling:
  assumes "make_valid_path nc_a = Inr path_a" "make_valid_path nc_b = Inr path_b"
  shows "(no_color \<longrightarrow>
            Fore (snd (compare make_valid_path ce fs nc_a nc_b grp var no_color sc st w)) =
              map (\<lambda>(k, v). (k, [])) (Fore st)
          \<and> Style (snd (compare make_valid_path ce fs nc_a nc_b grp var no_color sc st w)) =
              map (\<lambda>(k, v). (k, [])) (Style st))
       \<and> (\<not> no_color \<longrightarrow>
            Fore (snd (compare make_valid_path ce fs nc_a nc_b grp var no_color sc st w)) = Fore st
          \<and> Style (snd (compare make_valid_path ce fs nc_a nc_b grp var no_color sc st w)) = Style st)"
  using assms by (simp add: compare_def blank_all_def)

theorem no_color_blanks_styling_witness:
  "Fore (snd (compare Inr shared_names
          (two_files (one_group_file (const_variable [3] (Fin 1)))
                     (one_group_file (const_variable [3] (Fin 1))))
          ''a.nc'' ''b.nc'' None None True False colorama_styling (fixed_world 2))) =
     [(''RED'', []), (''RESET'', [])]
   \<and> Style (snd (compare Inr shared_names
          (two_files (one_group_file (const_variable [3] (Fin 1)))
                     (one_group_file (const_variable [3] (Fin 1))))
          ''a.nc'' ''b.nc'' None None True False colorama_styling (fixed_world 2))) =
     [(''BRIGHT'', []), (''RESET_ALL'', [])]
   \<and> Fore (snd (compare Inr shared_names
          (two_files (one_group_file (const_variable [3] (Fin 1)))
                     (one_group_file (const_variable [3] (Fin 1))))
          ''a.nc'' ''b.nc'' None None False False colorama_styling (fixed_world 2))) =
     Fore colorama_styling"
  using no_color_blanks_styling [where make_valid_path = Inr and no_color = True and ce = shared_names
          and fs = "two_files (one_group_file (const_variable [3] (Fin 1))) (one_group_file (const_variable [3] (Fin 1)))"
          and nc_a = "''a.nc''" and nc_b = "''b.nc''" and grp = None and var = None and sc = False
          and st = colorama_styling and w = "fixed_world 2"]
        no_color_blanks_styling [where make_valid_path = Inr and no_color = False and ce = shared_names
          and fs = "two_files (one_group_file (const_variable [3] (Fin 1))) (one_group_file (const_variable [3] (Fin 1)))"
          and nc_a = "''a.nc''" and nc_b = "''b.nc''" and grp = None and var = None and sc = False
          and st = colorama_styling and w = "fixed_world 2"]
  by (simp add: colorama_styling_def)

end
